theory Spec2Isabelle
  imports Main
begin

section \<open>The debate crew entry point (example_main.py)\<close>

text \<open>
  The module is a command-line dispatcher in front of an external orchestration
  framework. It is modelled as a state-and-exception passing program:
  \<^item> Python values stored in the input mapping are a small datatype with Python's
    truthiness (the source types them \<open>Any\<close>; the constructors below are the values
    the dispatcher itself produces, plus \<open>None\<close>, booleans and integers);
  \<^item> a \<open>dict\<close> object lives in a heap at an address, because \<open>validate_inputs\<close>
    assigns into the mapping it is given and returns that same object;
  \<^item> \<open>print\<close> appends to the list of lines written to standard output;
  \<^item> an exception is the \<open>Inl\<close> branch of the result; \<open>sys.exit\<close> raises
    \<open>SystemExit\<close>, which \<open>except Exception\<close> does not catch;
  \<^item> the framework object \<open>Debate().crew()\<close> and the clock are parameters of the
    environment; every delegated call is recorded in a trace.
\<close>

subsection \<open>Values, mappings, exceptions\<close>

datatype pyval = PNone | PBool bool | PInt int | PStr string

fun truthy :: "pyval \<Rightarrow> bool" where
  "truthy PNone = False"
| "truthy (PBool b) = b"
| "truthy (PInt i) = (i \<noteq> 0)"
| "truthy (PStr s) = (s \<noteq> [])"

definition digit_char :: "nat \<Rightarrow> char" where
  "digit_char d = ''0123456789'' ! d"

fun str_nat :: "nat \<Rightarrow> string" where
  "str_nat n = (if n < 10 then [digit_char n] else str_nat (n div 10) @ [digit_char (n mod 10)])"

declare str_nat.simps [simp del]

text \<open>\<open>str(i)\<close> for a Python integer: decimal digits, a minus sign when negative.\<close>

definition str_int :: "int \<Rightarrow> string" where
  "str_int i = (if i < 0 then CHR ''-'' # str_nat (nat (- i)) else str_nat (nat i))"

text \<open>\<open>str(v)\<close>, which is what an f-string field \<open>{v}\<close> writes.\<close>

fun py_str :: "pyval \<Rightarrow> string" where
  "py_str PNone = ''None''"
| "py_str (PBool b) = (if b then ''True'' else ''False'')"
| "py_str (PInt i) = str_int i"
| "py_str (PStr s) = s"

type_synonym dict = "string \<rightharpoonup> pyval"

type_synonym addr = nat

text \<open>
  The exception classes the source distinguishes: \<open>Exception\<close> (carrying \<open>str(e)\<close>),
  and the two \<open>BaseException\<close> classes that are not an \<open>Exception\<close>.
\<close>

datatype exn = Exception string | KeyboardInterrupt | SystemExit int

text \<open>\<open>d.get(k)\<close>: the value, or \<open>None\<close> when the key is missing.\<close>

definition dict_get :: "dict \<Rightarrow> string \<Rightarrow> pyval" where
  "dict_get d k = (case d k of None \<Rightarrow> PNone | Some v \<Rightarrow> v)"

text \<open>\<open>d[k]\<close>: raises \<open>KeyError(k)\<close> when the key is missing; its text is the quoted key.\<close>

definition subscript :: "dict \<Rightarrow> string \<Rightarrow> exn + pyval" where
  "subscript d k =
     (case d k of None \<Rightarrow> Inl (Exception ([CHR 0x27] @ k @ [CHR 0x27])) | Some v \<Rightarrow> Inr v)"

subsection \<open>The external collaborator and the environment\<close>

text \<open>
  The four operations of the framework object. Each returns a result or raises; the
  three that take the input mapping receive the object itself and may leave it changed,
  so they also give the mapping's content after the call.
\<close>

record crew =
  crew_kickoff :: "dict \<Rightarrow> (exn + pyval) \<times> dict"
  crew_train :: "int \<Rightarrow> string \<Rightarrow> dict \<Rightarrow> (exn + pyval) \<times> dict"
  crew_replay :: "string \<Rightarrow> exn + pyval"
  crew_test :: "int \<Rightarrow> string \<Rightarrow> dict \<Rightarrow> (exn + pyval) \<times> dict"

text \<open>
  \<open>now_year\<close> is \<open>datetime.now().year\<close>, taken to be the same at every reading
  within one invocation (each path of the program uses one reading for the value it
  stores); \<open>Debate\<close> is the outcome of \<open>Debate()\<close> followed by \<open>.crew()\<close>, which
  may itself raise; \<open>traceback\<close> is the text that the interpreter writes to standard
  error for an exception that nothing caught.
\<close>

record env =
  now_year :: int
  Debate :: "exn + crew"
  traceback :: "exn \<Rightarrow> string list"

text \<open>
  A delegated call as recorded in the trace: the operation, its arguments, and for a
  mapping argument both the object (its address) and the content it had at the call.
\<close>

datatype call =
    CallKickoff addr dict
  | CallTrain int string addr dict
  | CallReplay string
  | CallTest int string addr dict

text \<open>
  The state of one process: the mapping objects, the next unused address, the lines
  written to each output stream (one entry for each \<open>print\<close> call), and the trace of
  delegated calls. Every \<open>print\<close> of the module goes to standard output; nothing in
  it writes to standard error, which only receives the interpreter's traceback.
\<close>

record state =
  heap :: "addr \<Rightarrow> dict"
  next_addr :: addr
  stdout :: "string list"
  stderr :: "string list"
  calls :: "call list"

type_synonym 'a prog = "state \<Rightarrow> (exn + 'a) \<times> state"

definition return_val :: "'a \<Rightarrow> 'a prog" where
  "return_val v s = (Inr v, s)"

definition raise_exn :: "exn \<Rightarrow> 'a prog" where
  "raise_exn x s = (Inl x, s)"

text \<open>Sequencing: an exception in the first statement skips the rest.\<close>

definition and_then :: "'a prog \<Rightarrow> ('a \<Rightarrow> 'b prog) \<Rightarrow> 'b prog" where
  "and_then m f s = (case m s of (Inl x, s') \<Rightarrow> (Inl x, s') | (Inr v, s') \<Rightarrow> f v s')"

text \<open>
  \<open>try: body except ...: handler\<close>. The handler function re-raises the exceptions that
  no clause matches; an exception raised inside a handler is not caught again.
\<close>

definition try_except :: "'a prog \<Rightarrow> (exn \<Rightarrow> 'a prog) \<Rightarrow> 'a prog" where
  "try_except body handler s =
     (case body s of (Inl x, s') \<Rightarrow> handler x s' | (Inr v, s') \<Rightarrow> (Inr v, s'))"

definition lift :: "exn + 'a \<Rightarrow> 'a prog" where
  "lift r s = (r, s)"

definition py_print :: "string \<Rightarrow> unit prog" where
  "py_print l s = (Inr (), s\<lparr>stdout := stdout s @ [l]\<rparr>)"

definition sys_exit :: "int \<Rightarrow> 'a prog" where
  "sys_exit n = raise_exn (SystemExit n)"

text \<open>A dict display creates a new object.\<close>

definition new_dict :: "dict \<Rightarrow> addr prog" where
  "new_dict d s = (Inr (next_addr s), s\<lparr>heap := (heap s)(next_addr s := d), next_addr := Suc (next_addr s)\<rparr>)"

definition setitem :: "addr \<Rightarrow> string \<Rightarrow> pyval \<Rightarrow> unit prog" where
  "setitem a k v s = (Inr (), s\<lparr>heap := (heap s)(a := (heap s a)(k \<mapsto> v))\<rparr>)"

definition getitem :: "addr \<Rightarrow> string \<Rightarrow> pyval prog" where
  "getitem a k s = (subscript (heap s a) k, s)"

definition get :: "addr \<Rightarrow> string \<Rightarrow> pyval prog" where
  "get a k s = (Inr (dict_get (heap s a) k), s)"

text \<open>The delegated calls: the operation runs on the object at the address.\<close>

definition call_kickoff :: "crew \<Rightarrow> addr \<Rightarrow> pyval prog" where
  "call_kickoff c a s =
     (let d = heap s a; (r, d') = crew_kickoff c d
      in (r, s\<lparr>heap := (heap s)(a := d'), calls := calls s @ [CallKickoff a d]\<rparr>))"

definition call_train :: "crew \<Rightarrow> int \<Rightarrow> string \<Rightarrow> addr \<Rightarrow> pyval prog" where
  "call_train c n_iterations filename a s =
     (let d = heap s a; (r, d') = crew_train c n_iterations filename d
      in (r, s\<lparr>heap := (heap s)(a := d'), calls := calls s @ [CallTrain n_iterations filename a d]\<rparr>))"

definition call_replay :: "crew \<Rightarrow> string \<Rightarrow> pyval prog" where
  "call_replay c task_id s =
     (crew_replay c task_id, s\<lparr>calls := calls s @ [CallReplay task_id]\<rparr>)"

definition call_test :: "crew \<Rightarrow> int \<Rightarrow> string \<Rightarrow> addr \<Rightarrow> pyval prog" where
  "call_test c n_iterations eval_llm a s =
     (let d = heap s a; (r, d') = crew_test c n_iterations eval_llm d
      in (r, s\<lparr>heap := (heap s)(a := d'), calls := calls s @ [CallTest n_iterations eval_llm a d]\<rparr>))"

subsection \<open>Text constants\<close>

text \<open>The non-ASCII marks of the messages, as the UTF-8 bytes written to the stream.\<close>

definition cross_mark :: string where
  "cross_mark = [CHR 0xE2, CHR 0x9D, CHR 0x8C]"

definition check_mark :: string where
  "check_mark = [CHR 0xE2, CHR 0x9C, CHR 0x85]"

definition warning_sign :: string where
  "warning_sign = [CHR 0xE2, CHR 0x9A, CHR 0xA0, CHR 0xEF, CHR 0xB8, CHR 0x8F]"

definition default_motion :: string where
  "default_motion = ''AI LLMs will significantly improve human productivity''"

subsection \<open>get_default_inputs and validate_inputs\<close>

definition get_default_inputs :: "env \<Rightarrow> dict" where
  "get_default_inputs e =
     [''motion'' \<mapsto> PStr default_motion, ''current_year'' \<mapsto> PStr (str_int (now_year e))]"

definition validate_inputs :: "env \<Rightarrow> addr \<Rightarrow> addr prog" where
  "validate_inputs e inputs =
     and_then (get inputs ''motion'') (\<lambda>m.
     and_then (if \<not> truthy m
               then and_then (lift (subscript (get_default_inputs e) ''motion''))
                      (\<lambda>v. setitem inputs ''motion'' v)
               else return_val ()) (\<lambda>_.
     and_then (get inputs ''current_year'') (\<lambda>y.
     and_then (if \<not> truthy y
               then and_then (lift (subscript (get_default_inputs e) ''current_year''))
                      (\<lambda>v. setitem inputs ''current_year'' v)
               else return_val ()) (\<lambda>_.
     return_val inputs))))"

subsection \<open>run, train, replay, test\<close>

text \<open>
  A parameter with a default value is an \<open>option\<close>: \<open>None\<close> when the caller leaves
  it out. The handler of each function is \<open>except Exception as e: print(...); raise\<close>.
\<close>

definition dashes :: string where
  "dashes = replicate 50 (CHR ''-'')"

definition equals_signs :: string where
  "equals_signs = replicate 50 (CHR ''='')"

definition report_and_reraise :: "string \<Rightarrow> exn \<Rightarrow> 'a prog" where
  "report_and_reraise what x =
     (case x of
        Exception t \<Rightarrow>
          and_then (py_print (cross_mark @ '' Error occurred while '' @ what @ '' the crew: '' @ t))
            (\<lambda>_. raise_exn x)
      | KeyboardInterrupt \<Rightarrow> raise_exn x
      | SystemExit n \<Rightarrow> raise_exn x)"

definition run :: "env \<Rightarrow> addr option \<Rightarrow> unit prog" where
  "run e inputs =
     and_then (case inputs of None \<Rightarrow> new_dict (get_default_inputs e) | Some a \<Rightarrow> return_val a) (\<lambda>inputs.
     and_then (validate_inputs e inputs) (\<lambda>inputs.
     and_then (getitem inputs ''motion'') (\<lambda>m.
     and_then (py_print (''Starting debate on motion: '' @ py_str m)) (\<lambda>_.
     and_then (getitem inputs ''current_year'') (\<lambda>y.
     and_then (py_print (''Current year: '' @ py_str y)) (\<lambda>_.
     and_then (py_print dashes) (\<lambda>_.
     try_except
       (and_then (lift (Debate e)) (\<lambda>crew_instance.
        and_then (call_kickoff crew_instance inputs) (\<lambda>result.
        and_then (py_print ([CHR 0x0A] @ equals_signs)) (\<lambda>_.
        and_then (py_print ''DEBATE COMPLETED'') (\<lambda>_.
        and_then (py_print equals_signs) (\<lambda>_.
        py_print (''Result: '' @ py_str result)))))))
       (report_and_reraise ''running''))))))))"

definition train :: "env \<Rightarrow> int option \<Rightarrow> string option \<Rightarrow> addr option \<Rightarrow> unit prog" where
  "train e n_iterations filename inputs =
     (let n_iterations = (case n_iterations of None \<Rightarrow> 5 | Some n \<Rightarrow> n);
          filename = (case filename of None \<Rightarrow> ''training_results.json'' | Some f \<Rightarrow> f)
      in
     and_then (case inputs of None \<Rightarrow> new_dict (get_default_inputs e) | Some a \<Rightarrow> return_val a) (\<lambda>inputs.
     and_then (validate_inputs e inputs) (\<lambda>inputs.
     and_then (py_print (''Training crew for '' @ str_int n_iterations @ '' iterations...'')) (\<lambda>_.
     and_then (getitem inputs ''motion'') (\<lambda>m.
     and_then (py_print (''Motion: '' @ py_str m)) (\<lambda>_.
     and_then (py_print (''Results will be saved to: '' @ filename)) (\<lambda>_.
     and_then (py_print dashes) (\<lambda>_.
     try_except
       (and_then (lift (Debate e)) (\<lambda>crew_instance.
        and_then (call_train crew_instance n_iterations filename inputs) (\<lambda>_.
        py_print (check_mark @ '' Training completed successfully! Results saved to '' @ filename))))
       (report_and_reraise ''training'')))))))))"

definition replay :: "env \<Rightarrow> string \<Rightarrow> unit prog" where
  "replay e task_id =
     and_then (py_print (''Replaying crew execution from task: '' @ task_id)) (\<lambda>_.
     and_then (py_print dashes) (\<lambda>_.
     try_except
       (and_then (lift (Debate e)) (\<lambda>crew_instance.
        and_then (call_replay crew_instance task_id) (\<lambda>result.
        and_then (py_print (check_mark @ '' Replay completed successfully!'')) (\<lambda>_.
        py_print (''Result: '' @ py_str result)))))
       (report_and_reraise ''replaying'')))"

definition test :: "env \<Rightarrow> int option \<Rightarrow> string option \<Rightarrow> addr option \<Rightarrow> unit prog" where
  "test e n_iterations eval_llm inputs =
     (let n_iterations = (case n_iterations of None \<Rightarrow> 3 | Some n \<Rightarrow> n);
          eval_llm = (case eval_llm of None \<Rightarrow> ''openai/gpt-4o-mini'' | Some l \<Rightarrow> l)
      in
     and_then (case inputs of None \<Rightarrow> new_dict (get_default_inputs e) | Some a \<Rightarrow> return_val a) (\<lambda>inputs.
     and_then (validate_inputs e inputs) (\<lambda>inputs.
     and_then (py_print (''Testing crew for '' @ str_int n_iterations @ '' iterations...'')) (\<lambda>_.
     and_then (py_print (''Evaluation LLM: '' @ eval_llm)) (\<lambda>_.
     and_then (getitem inputs ''motion'') (\<lambda>m.
     and_then (py_print (''Motion: '' @ py_str m)) (\<lambda>_.
     and_then (py_print dashes) (\<lambda>_.
     try_except
       (and_then (lift (Debate e)) (\<lambda>crew_instance.
        and_then (call_test crew_instance n_iterations eval_llm inputs) (\<lambda>result.
        and_then (py_print (check_mark @ '' Testing completed successfully!'')) (\<lambda>_.
        py_print (''Test results: '' @ py_str result)))))
       (report_and_reraise ''testing'')))))))))"

subsection \<open>The command line\<close>

text \<open>
  The parser declares one positional \<open>action\<close> with four choices and five optional
  flags, each with the \<open>store\<close> action of \<open>argparse\<close>: a flag that occurs sets its
  attribute to the converted value (the last occurrence wins), a flag that does not
  occur leaves the declared default (\<open>None\<close> where none is declared). A command line
  is therefore the action and the list of flags given, already converted by their
  \<open>type\<close>; command lines that \<open>argparse\<close> rejects end the process inside
  \<open>parse_args\<close>, before any statement of \<open>main\<close> below it, and are not represented.
\<close>

datatype action = Run | Train | Replay | Test

datatype opt =
    Motion string
  | Iterations int
  | Filename string
  | EvalLlm string
  | TaskId string

record namespace =
  ns_action :: action
  ns_motion :: "string option"
  ns_iterations :: int
  ns_filename :: string
  ns_eval_llm :: string
  ns_task_id :: "string option"

definition parser_defaults :: "action \<Rightarrow> namespace" where
  "parser_defaults act =
     \<lparr>ns_action = act, ns_motion = None, ns_iterations = 5,
      ns_filename = ''training_results.json'', ns_eval_llm = ''openai/gpt-4o-mini'',
      ns_task_id = None\<rparr>"

fun store :: "namespace \<Rightarrow> opt \<Rightarrow> namespace" where
  "store ns (Motion m) = ns\<lparr>ns_motion := Some m\<rparr>"
| "store ns (Iterations n) = ns\<lparr>ns_iterations := n\<rparr>"
| "store ns (Filename f) = ns\<lparr>ns_filename := f\<rparr>"
| "store ns (EvalLlm l) = ns\<lparr>ns_eval_llm := l\<rparr>"
| "store ns (TaskId t) = ns\<lparr>ns_task_id := Some t\<rparr>"

definition parse_args :: "action \<Rightarrow> opt list \<Rightarrow> namespace" where
  "parse_args act opts = foldl store (parser_defaults act) opts"

definition main_handler :: "exn \<Rightarrow> unit prog" where
  "main_handler x =
     (case x of
        KeyboardInterrupt \<Rightarrow>
          and_then (py_print ([CHR 0x0A] @ warning_sign @ ''  Operation cancelled by user''))
            (\<lambda>_. sys_exit 1)
      | Exception t \<Rightarrow>
          and_then (py_print (cross_mark @ '' Fatal error: '' @ t)) (\<lambda>_. sys_exit 1)
      | SystemExit n \<Rightarrow> raise_exn x)"

definition main :: "env \<Rightarrow> action \<Rightarrow> opt list \<Rightarrow> unit prog" where
  "main e act opts =
     (let args = parse_args act opts in
      and_then (new_dict (get_default_inputs e)) (\<lambda>inputs.
      and_then (case ns_motion args of
                  None \<Rightarrow> return_val ()
                | Some m \<Rightarrow> if m \<noteq> [] then setitem inputs ''motion'' (PStr m) else return_val ()) (\<lambda>_.
      try_except
        (case ns_action args of
           Run \<Rightarrow> run e (Some inputs)
         | Train \<Rightarrow> train e (Some (ns_iterations args)) (Some (ns_filename args)) (Some inputs)
         | Replay \<Rightarrow>
             (case ns_task_id args of
                None \<Rightarrow>
                  and_then (py_print (cross_mark @ '' Error: task-id is required for replay action''))
                    (\<lambda>_. sys_exit 1)
              | Some t \<Rightarrow>
                  if t = []
                  then and_then (py_print (cross_mark @ '' Error: task-id is required for replay action''))
                         (\<lambda>_. sys_exit 1)
                  else replay e t)
         | Test \<Rightarrow> test e (Some (ns_iterations args)) (Some (ns_eval_llm args)) (Some inputs))
        main_handler)))"

text \<open>
  The module's last block: with no argument at all it prints a line and calls
  \<open>run()\<close> directly, otherwise it calls \<open>main()\<close>. The process ends with status 0
  when the block returns and with the status of a \<open>SystemExit\<close>. For an \<open>Exception\<close>
  that nothing caught the interpreter writes the traceback to standard error and the
  process ends with status 1; for a \<open>KeyboardInterrupt\<close> that nothing caught it
  writes the traceback and ends the process as interrupted, with no status chosen by
  the program.
\<close>

datatype cmdline = NoArguments | Arguments action "opt list"

datatype ending = Exit int | Uncaught exn

definition program :: "env \<Rightarrow> cmdline \<Rightarrow> state \<Rightarrow> ending \<times> state" where
  "program e cl s =
     (case (case cl of
              NoArguments \<Rightarrow>
                and_then (py_print ''Running debate crew with default settings...'')
                  (\<lambda>_. run e None)
            | Arguments act opts \<Rightarrow> main e act opts) s of
        (Inr _, s') \<Rightarrow> (Exit 0, s')
      | (Inl (SystemExit n), s') \<Rightarrow> (Exit n, s')
      | (Inl (Exception t), s') \<Rightarrow>
          (Exit 1, s'\<lparr>stderr := stderr s' @ traceback e (Exception t)\<rparr>)
      | (Inl KeyboardInterrupt, s') \<Rightarrow>
          (Uncaught KeyboardInterrupt,
           s'\<lparr>stderr := stderr s' @ traceback e KeyboardInterrupt\<rparr>))"

subsection \<open>Notions used to state the properties\<close>

text \<open>
  The content that \<open>validate_inputs\<close> leaves in a mapping whose content was \<open>d\<close>
  (lemma \<open>validate_inputs_eq\<close> below connects the two).
\<close>

definition validated :: "env \<Rightarrow> dict \<Rightarrow> dict" where
  "validated e d =
     (let d1 = (if \<not> truthy (dict_get d ''motion'')
                then d(''motion'' \<mapsto> PStr default_motion) else d);
          d2 = (if \<not> truthy (dict_get d1 ''current_year'')
                then d1(''current_year'' \<mapsto> PStr (str_int (now_year e))) else d1)
      in d2)"

text \<open>
  For a call \<open>run(inputs)\<close>, \<open>train(.., inputs)\<close> or \<open>test(.., inputs)\<close> in state
  \<open>s\<close>: the object that reaches the delegated operation and its content there.
\<close>

definition passed_addr :: "addr option \<Rightarrow> state \<Rightarrow> addr" where
  "passed_addr inputs s = (case inputs of None \<Rightarrow> next_addr s | Some a \<Rightarrow> a)"

definition passed_inputs :: "env \<Rightarrow> addr option \<Rightarrow> state \<Rightarrow> dict" where
  "passed_inputs e inputs s =
     validated e (case inputs of None \<Rightarrow> get_default_inputs e | Some a \<Rightarrow> heap s a)"

text \<open>
  No value is supplied for key \<open>k\<close>: the mapping is absent, or \<open>inputs.get(k)\<close> is
  falsy (the key is missing, or its value is empty).
\<close>

definition not_supplied :: "string \<Rightarrow> addr option \<Rightarrow> state \<Rightarrow> bool" where
  "not_supplied k inputs s =
     (case inputs of None \<Rightarrow> True | Some a \<Rightarrow> \<not> truthy (dict_get (heap s a) k))"

text \<open>The mapping that \<open>main\<close> prepares from the parsed arguments before dispatching.\<close>

definition prepared_inputs :: "env \<Rightarrow> namespace \<Rightarrow> dict" where
  "prepared_inputs e args =
     (case ns_motion args of
        None \<Rightarrow> get_default_inputs e
      | Some m \<Rightarrow> if m \<noteq> [] then (get_default_inputs e)(''motion'' \<mapsto> PStr m)
                  else get_default_inputs e)"

text \<open>The state in which \<open>main\<close> enters its \<open>try\<close> block.\<close>

definition prepared :: "env \<Rightarrow> namespace \<Rightarrow> state \<Rightarrow> state" where
  "prepared e args s =
     s\<lparr>heap := (heap s)(next_addr s := prepared_inputs e args), next_addr := Suc (next_addr s)\<rparr>"

text \<open>
  The lines that the \<open>except Exception\<close> clause of \<open>run\<close>, \<open>train\<close>, \<open>replay\<close> and
  \<open>test\<close> prints for an exception, and the lines that the clauses of \<open>main\<close> print.
\<close>

definition handler_lines :: "string \<Rightarrow> exn \<Rightarrow> string list" where
  "handler_lines what x =
     (case x of
        Exception t \<Rightarrow> [cross_mark @ '' Error occurred while '' @ what @ '' the crew: '' @ t]
      | KeyboardInterrupt \<Rightarrow> []
      | SystemExit n \<Rightarrow> [])"

definition main_lines :: "exn \<Rightarrow> string list" where
  "main_lines x =
     (case x of
        KeyboardInterrupt \<Rightarrow> [[CHR 0x0A] @ warning_sign @ ''  Operation cancelled by user'']
      | Exception t \<Rightarrow> [cross_mark @ '' Fatal error: '' @ t]
      | SystemExit n \<Rightarrow> [])"

text \<open>What a recorded call gave: the outcome of the operation on the recorded arguments.\<close>

fun outcome_of :: "crew \<Rightarrow> call \<Rightarrow> exn + pyval" where
  "outcome_of c (CallKickoff a d) = fst (crew_kickoff c d)"
| "outcome_of c (CallTrain n f a d) = fst (crew_train c n f d)"
| "outcome_of c (CallReplay t) = crew_replay c t"
| "outcome_of c (CallTest n l a d) = fst (crew_test c n l d)"

text \<open>The word by which the function that made a call names its activity.\<close>

fun activity :: "call \<Rightarrow> string" where
  "activity (CallKickoff a d) = ''running''"
| "activity (CallTrain n f a d) = ''training''"
| "activity (CallReplay t) = ''replaying''"
| "activity (CallTest n l a d) = ''testing''"

subsection \<open>Sample collaborators and states\<close>

definition crew_returning :: "pyval \<Rightarrow> crew" where
  "crew_returning v =
     \<lparr>crew_kickoff = (\<lambda>d. (Inr v, d)), crew_train = (\<lambda>n f d. (Inr v, d)),
      crew_replay = (\<lambda>t. Inr v), crew_test = (\<lambda>n l d. (Inr v, d))\<rparr>"

definition crew_raising :: "exn \<Rightarrow> crew" where
  "crew_raising x =
     \<lparr>crew_kickoff = (\<lambda>d. (Inl x, d)), crew_train = (\<lambda>n f d. (Inl x, d)),
      crew_replay = (\<lambda>t. Inl x), crew_test = (\<lambda>n l d. (Inl x, d))\<rparr>"

definition env_with :: "crew \<Rightarrow> env" where
  "env_with c =
     \<lparr>now_year = 2026, Debate = Inr c,
      traceback = (\<lambda>x. [''Traceback (most recent call last):'',
                          (case x of
                             Exception t \<Rightarrow> ''Exception: '' @ t
                           | KeyboardInterrupt \<Rightarrow> ''KeyboardInterrupt''
                           | SystemExit n \<Rightarrow> ''SystemExit'')])\<rparr>"

definition initial_state :: state where
  "initial_state = \<lparr>heap = (\<lambda>_. Map.empty), next_addr = 0, stdout = [], stderr = [], calls = []\<rparr>"

text \<open>A state in which a caller holds one mapping, at address 0, with neither key.\<close>

definition caller_state :: state where
  "caller_state =
     \<lparr>heap = (\<lambda>_. Map.empty)(0 := [''audience'' \<mapsto> PStr ''students'']), next_addr = 1,
      stdout = [], stderr = [], calls = []\<rparr>"

section \<open>Basic facts\<close>

subsection \<open>Values and validation\<close>

lemma str_nat_nonempty: "str_nat n \<noteq> []"
  by (subst str_nat.simps) simp

lemma str_int_nonempty: "str_int i \<noteq> []"
  by (simp add: str_int_def str_nat_nonempty)

lemma default_motion_nonempty: "default_motion \<noteq> []"
  by (simp add: default_motion_def)

lemmas prog_defs = and_then_def try_except_def return_val_def raise_exn_def lift_def
  py_print_def sys_exit_def new_dict_def setitem_def getitem_def get_def

lemma subscript_default_motion: "subscript (get_default_inputs e) ''motion'' = Inr (PStr default_motion)"
  by (simp add: subscript_def get_default_inputs_def)

lemma subscript_default_year: "subscript (get_default_inputs e) ''current_year'' = Inr (PStr (str_int (now_year e)))"
  by (simp add: subscript_def get_default_inputs_def)

lemma validate_inputs_eq:
  "validate_inputs e a s = (Inr a, s\<lparr>heap := (heap s)(a := validated e (heap s a))\<rparr>)"
  by (simp add: validate_inputs_def validated_def prog_defs subscript_default_motion subscript_default_year Let_def)

lemma validated_motion:
  "validated e d ''motion'' =
     Some (if truthy (dict_get d ''motion'') then dict_get d ''motion'' else PStr default_motion)"
  by (cases "d ''motion''") (simp_all add: validated_def Let_def dict_get_def)

lemma validated_year:
  "validated e d ''current_year'' =
     Some (if truthy (dict_get d ''current_year'') then dict_get d ''current_year''
           else PStr (str_int (now_year e)))"
  by (cases "d ''current_year''") (simp_all add: validated_def Let_def dict_get_def)

lemma validated_other:
  "k \<noteq> ''motion'' \<Longrightarrow> k \<noteq> ''current_year'' \<Longrightarrow> validated e d k = d k"
  by (simp add: validated_def Let_def)

lemma validated_truthy_motion: "truthy (dict_get (validated e d) ''motion'')"
  by (simp add: dict_get_def validated_motion default_motion_nonempty)

lemma validated_truthy_year: "truthy (dict_get (validated e d) ''current_year'')"
  by (simp add: dict_get_def validated_year str_int_nonempty)

lemma validated_fixed:
  "truthy (dict_get d ''motion'') \<Longrightarrow> truthy (dict_get d ''current_year'') \<Longrightarrow> validated e d = d"
  by (simp add: validated_def Let_def)

lemma validated_idem: "validated e (validated e d) = validated e d"
  by (rule validated_fixed) (rule validated_truthy_motion validated_truthy_year)+

lemma validated_default: "validated e (get_default_inputs e) = get_default_inputs e"
  by (rule validated_fixed)
     (simp_all add: get_default_inputs_def dict_get_def default_motion_nonempty str_int_nonempty)

lemma validated_prepared: "validated e (prepared_inputs e args) = prepared_inputs e args"
  by (rule validated_fixed)
     (simp_all add: prepared_inputs_def get_default_inputs_def dict_get_def default_motion_nonempty
        str_int_nonempty split: option.splits)

lemma subscript_validated_motion:
  "subscript (validated e d) ''motion'' =
     Inr (if truthy (dict_get d ''motion'') then dict_get d ''motion'' else PStr default_motion)"
  by (simp add: subscript_def validated_motion)

lemma subscript_validated_year:
  "subscript (validated e d) ''current_year'' =
     Inr (if truthy (dict_get d ''current_year'') then dict_get d ''current_year''
          else PStr (str_int (now_year e)))"
  by (simp add: subscript_def validated_year)


subsection \<open>Sequencing\<close>

lemma and_then_return [simp]: "and_then (return_val v) f = f v"
  by (rule ext) (simp add: and_then_def return_val_def)

lemma and_then_raise [simp]: "and_then (raise_exn x) f = raise_exn x"
  by (rule ext) (simp add: and_then_def raise_exn_def)

lemma and_then_lift_Inr [simp]: "and_then (lift (Inr v)) f = f v"
  by (rule ext) (simp add: and_then_def lift_def)

lemma and_then_lift_Inl [simp]: "and_then (lift (Inl x)) f = raise_exn x"
  by (rule ext) (simp add: and_then_def lift_def raise_exn_def)

lemma and_then_print [simp]:
  "and_then (py_print l) f s = f () (s\<lparr>stdout := stdout s @ [l]\<rparr>)"
  by (simp add: and_then_def py_print_def)

lemma and_then_new_dict [simp]:
  "and_then (new_dict d) f s =
     f (next_addr s) (s\<lparr>heap := (heap s)(next_addr s := d), next_addr := Suc (next_addr s)\<rparr>)"
  by (simp add: and_then_def new_dict_def)

lemma and_then_setitem [simp]:
  "and_then (setitem a k v) f s = f () (s\<lparr>heap := (heap s)(a := (heap s a)(k \<mapsto> v))\<rparr>)"
  by (simp add: and_then_def setitem_def)

lemma and_then_validate [simp]:
  "and_then (validate_inputs e a) f s = f a (s\<lparr>heap := (heap s)(a := validated e (heap s a))\<rparr>)"
  by (simp add: and_then_def validate_inputs_eq)

lemma and_then_getitem:
  "subscript (heap s a) k = Inr v \<Longrightarrow> and_then (getitem a k) f s = f v s"
  by (simp add: and_then_def getitem_def)

subsection \<open>The four functions\<close>

lemma report_and_reraise_eq:
  "report_and_reraise what x s = (Inl x, s\<lparr>stdout := stdout s @ handler_lines what x\<rparr>)"
  by (cases x) (simp_all add: report_and_reraise_def raise_exn_def handler_lines_def)

lemma main_handler_eq:
  "main_handler x s =
     (Inl (SystemExit (case x of SystemExit n \<Rightarrow> n | Exception t \<Rightarrow> 1 | KeyboardInterrupt \<Rightarrow> 1)),
      s\<lparr>stdout := stdout s @ main_lines x\<rparr>)"
  by (cases x) (simp_all add: main_handler_def raise_exn_def sys_exit_def main_lines_def)

lemma run_None:
  "run e None s =
     run e (Some (next_addr s))
       (s\<lparr>heap := (heap s)(next_addr s := get_default_inputs e), next_addr := Suc (next_addr s)\<rparr>)"
  by (simp add: run_def)

lemma train_None:
  "train e n f None s =
     train e n f (Some (next_addr s))
       (s\<lparr>heap := (heap s)(next_addr s := get_default_inputs e), next_addr := Suc (next_addr s)\<rparr>)"
  by (simp add: train_def Let_def)

lemma test_None:
  "test e n l None s =
     test e n l (Some (next_addr s))
       (s\<lparr>heap := (heap s)(next_addr s := get_default_inputs e), next_addr := Suc (next_addr s)\<rparr>)"
  by (simp add: test_def Let_def)

lemma run_Some:
  assumes "Debate e = Inr c"
  shows "run e (Some a) s =
     (case fst (crew_kickoff c (validated e (heap s a))) of Inl x \<Rightarrow> Inl x | Inr v \<Rightarrow> Inr (),
      s\<lparr>heap := (heap s)(a := snd (crew_kickoff c (validated e (heap s a)))),
         stdout := stdout s @
           [''Starting debate on motion: '' @ py_str (the (validated e (heap s a) ''motion'')),
            ''Current year: '' @ py_str (the (validated e (heap s a) ''current_year'')),
            dashes] @
           (case fst (crew_kickoff c (validated e (heap s a))) of
              Inl x \<Rightarrow> handler_lines ''running'' x
            | Inr result \<Rightarrow>
                [[CHR 0x0A] @ equals_signs, ''DEBATE COMPLETED'', equals_signs,
                 ''Result: '' @ py_str result]),
         calls := calls s @ [CallKickoff a (validated e (heap s a))]\<rparr>)"
proof (cases "crew_kickoff c (validated e (heap s a))")
  case (Pair r d')
  with assms show ?thesis
    by (cases r)
       (simp_all add: run_def and_then_getitem subscript_validated_motion subscript_validated_year
          validated_motion validated_year try_except_def call_kickoff_def
          and_then_def[of "call_kickoff _ _"] py_print_def report_and_reraise_eq)
qed

lemma train_Some:
  assumes "Debate e = Inr c"
  shows "train e n f (Some a) s =
     (case fst (crew_train c (case n of None \<Rightarrow> 5 | Some k \<Rightarrow> k)
                  (case f of None \<Rightarrow> ''training_results.json'' | Some g \<Rightarrow> g)
                  (validated e (heap s a))) of Inl x \<Rightarrow> Inl x | Inr v \<Rightarrow> Inr (),
      s\<lparr>heap := (heap s)(a := snd (crew_train c (case n of None \<Rightarrow> 5 | Some k \<Rightarrow> k)
                  (case f of None \<Rightarrow> ''training_results.json'' | Some g \<Rightarrow> g)
                  (validated e (heap s a)))),
         stdout := stdout s @
           [''Training crew for '' @ str_int (case n of None \<Rightarrow> 5 | Some k \<Rightarrow> k) @ '' iterations...'',
            ''Motion: '' @ py_str (the (validated e (heap s a) ''motion'')),
            ''Results will be saved to: '' @ (case f of None \<Rightarrow> ''training_results.json'' | Some g \<Rightarrow> g),
            dashes] @
           (case fst (crew_train c (case n of None \<Rightarrow> 5 | Some k \<Rightarrow> k)
                  (case f of None \<Rightarrow> ''training_results.json'' | Some g \<Rightarrow> g)
                  (validated e (heap s a))) of
              Inl x \<Rightarrow> handler_lines ''training'' x
            | Inr result \<Rightarrow>
                [check_mark @ '' Training completed successfully! Results saved to '' @
                 (case f of None \<Rightarrow> ''training_results.json'' | Some g \<Rightarrow> g)]),
         calls := calls s @ [CallTrain (case n of None \<Rightarrow> 5 | Some k \<Rightarrow> k)
                  (case f of None \<Rightarrow> ''training_results.json'' | Some g \<Rightarrow> g)
                  a (validated e (heap s a))]\<rparr>)"
proof (cases "crew_train c (case n of None \<Rightarrow> 5 | Some k \<Rightarrow> k)
                  (case f of None \<Rightarrow> ''training_results.json'' | Some g \<Rightarrow> g)
                  (validated e (heap s a))")
  case (Pair r d')
  with assms show ?thesis
    by (cases r)
       (simp_all add: train_def Let_def and_then_getitem subscript_validated_motion
          validated_motion try_except_def call_train_def
          and_then_def[of "call_train _ _ _ _"] py_print_def report_and_reraise_eq)
qed

lemma test_Some:
  assumes "Debate e = Inr c"
  shows "test e n l (Some a) s =
     (case fst (crew_test c (case n of None \<Rightarrow> 3 | Some k \<Rightarrow> k)
                  (case l of None \<Rightarrow> ''openai/gpt-4o-mini'' | Some g \<Rightarrow> g)
                  (validated e (heap s a))) of Inl x \<Rightarrow> Inl x | Inr v \<Rightarrow> Inr (),
      s\<lparr>heap := (heap s)(a := snd (crew_test c (case n of None \<Rightarrow> 3 | Some k \<Rightarrow> k)
                  (case l of None \<Rightarrow> ''openai/gpt-4o-mini'' | Some g \<Rightarrow> g)
                  (validated e (heap s a)))),
         stdout := stdout s @
           [''Testing crew for '' @ str_int (case n of None \<Rightarrow> 3 | Some k \<Rightarrow> k) @ '' iterations...'',
            ''Evaluation LLM: '' @ (case l of None \<Rightarrow> ''openai/gpt-4o-mini'' | Some g \<Rightarrow> g),
            ''Motion: '' @ py_str (the (validated e (heap s a) ''motion'')),
            dashes] @
           (case fst (crew_test c (case n of None \<Rightarrow> 3 | Some k \<Rightarrow> k)
                  (case l of None \<Rightarrow> ''openai/gpt-4o-mini'' | Some g \<Rightarrow> g)
                  (validated e (heap s a))) of
              Inl x \<Rightarrow> handler_lines ''testing'' x
            | Inr result \<Rightarrow>
                [check_mark @ '' Testing completed successfully!'',
                 ''Test results: '' @ py_str result]),
         calls := calls s @ [CallTest (case n of None \<Rightarrow> 3 | Some k \<Rightarrow> k)
                  (case l of None \<Rightarrow> ''openai/gpt-4o-mini'' | Some g \<Rightarrow> g)
                  a (validated e (heap s a))]\<rparr>)"
proof (cases "crew_test c (case n of None \<Rightarrow> 3 | Some k \<Rightarrow> k)
                  (case l of None \<Rightarrow> ''openai/gpt-4o-mini'' | Some g \<Rightarrow> g)
                  (validated e (heap s a))")
  case (Pair r d')
  with assms show ?thesis
    by (cases r)
       (simp_all add: test_def Let_def and_then_getitem subscript_validated_motion
          validated_motion try_except_def call_test_def
          and_then_def[of "call_test _ _ _ _"] py_print_def report_and_reraise_eq)
qed

lemma replay_eq:
  assumes "Debate e = Inr c"
  shows "replay e t s =
     (case crew_replay c t of Inl x \<Rightarrow> Inl x | Inr v \<Rightarrow> Inr (),
      s\<lparr>stdout := stdout s @
           [''Replaying crew execution from task: '' @ t, dashes] @
           (case crew_replay c t of
              Inl x \<Rightarrow> handler_lines ''replaying'' x
            | Inr result \<Rightarrow>
                [check_mark @ '' Replay completed successfully!'', ''Result: '' @ py_str result]),
         calls := calls s @ [CallReplay t]\<rparr>)"
  using assms
  by (cases "crew_replay c t")
     (simp_all add: replay_def try_except_def call_replay_def
        and_then_def[of "call_replay _ _"] py_print_def report_and_reraise_eq)


subsection \<open>Parsing and dispatch\<close>

lemma foldl_store_action: "ns_action (foldl store ns opts) = ns_action ns"
proof (induction opts arbitrary: ns)
  case Nil
  show ?case by simp
next
  case (Cons o1 opts)
  show ?case by (cases o1) (simp_all add: Cons.IH)
qed

lemma foldl_store_iterations:
  "\<forall>n. Iterations n \<notin> set opts \<Longrightarrow> ns_iterations (foldl store ns opts) = ns_iterations ns"
proof (induction opts arbitrary: ns)
  case Nil
  show ?case by simp
next
  case (Cons o1 opts)
  then show ?case by (cases o1) auto
qed

lemma foldl_store_task_id:
  "\<forall>t. TaskId t \<notin> set opts \<Longrightarrow> ns_task_id (foldl store ns opts) = ns_task_id ns"
proof (induction opts arbitrary: ns)
  case Nil
  show ?case by simp
next
  case (Cons o1 opts)
  then show ?case by (cases o1) auto
qed

lemma parse_args_action [simp]: "ns_action (parse_args act opts) = act"
  by (simp add: parse_args_def foldl_store_action parser_defaults_def)

lemma parse_args_iterations:
  "\<forall>n. Iterations n \<notin> set opts \<Longrightarrow> ns_iterations (parse_args act opts) = 5"
  by (simp add: parse_args_def foldl_store_iterations parser_defaults_def)

lemma parse_args_task_id:
  "\<forall>t. TaskId t \<notin> set opts \<Longrightarrow> ns_task_id (parse_args act opts) = None"
  by (simp add: parse_args_def foldl_store_task_id parser_defaults_def)

lemma main_prepare:
  "and_then (new_dict (get_default_inputs e)) (\<lambda>inputs.
     and_then (case ns_motion args of
                 None \<Rightarrow> return_val ()
               | Some m \<Rightarrow> if m \<noteq> [] then setitem inputs ''motion'' (PStr m) else return_val ())
       (\<lambda>_. f inputs)) s
   = f (next_addr s) (prepared e args s)"
proof (cases "ns_motion args")
  case None
  then show ?thesis by (simp add: prepared_def prepared_inputs_def)
next
  case (Some m)
  show ?thesis
  proof (cases "m = []")
    case True
    with Some show ?thesis by (simp add: prepared_def prepared_inputs_def)
  next
    case False
    have "s\<lparr>heap := (heap s)(next_addr s := get_default_inputs e), next_addr := Suc (next_addr s),
            heap := (heap s)(next_addr s := (get_default_inputs e)(''motion'' \<mapsto> PStr m))\<rparr>
          = prepared e args s"
      using Some False by (simp add: prepared_def prepared_inputs_def)
    with Some False show ?thesis by simp
  qed
qed

lemma main_Run:
  "main e Run opts s =
     try_except (run e (Some (next_addr s))) main_handler (prepared e (parse_args Run opts) s)"
  by (simp add: main_def Let_def main_prepare del: and_then_new_dict)

lemma main_Train:
  "main e Train opts s =
     try_except (train e (Some (ns_iterations (parse_args Train opts)))
                   (Some (ns_filename (parse_args Train opts))) (Some (next_addr s)))
       main_handler (prepared e (parse_args Train opts) s)"
  by (simp add: main_def Let_def main_prepare del: and_then_new_dict)

lemma main_Test:
  "main e Test opts s =
     try_except (test e (Some (ns_iterations (parse_args Test opts)))
                   (Some (ns_eval_llm (parse_args Test opts))) (Some (next_addr s)))
       main_handler (prepared e (parse_args Test opts) s)"
  by (simp add: main_def Let_def main_prepare del: and_then_new_dict)

lemma main_Replay_missing:
  assumes "ns_task_id (parse_args Replay opts) = None \<or> ns_task_id (parse_args Replay opts) = Some []"
  shows "main e Replay opts s =
     (Inl (SystemExit 1),
      (prepared e (parse_args Replay opts) s)
        \<lparr>stdout := stdout s @ [cross_mark @ '' Error: task-id is required for replay action'']\<rparr>)"
  using assms
  by (auto simp add: main_def Let_def main_prepare try_except_def sys_exit_def raise_exn_def
        main_handler_def prepared_def simp del: and_then_new_dict)

lemma main_Replay:
  assumes "ns_task_id (parse_args Replay opts) = Some t" and "t \<noteq> []"
  shows "main e Replay opts s =
     try_except (replay e t) main_handler (prepared e (parse_args Replay opts) s)"
  using assms by (simp add: main_def Let_def main_prepare del: and_then_new_dict)

lemma try_main_snd:
  "snd (try_except b main_handler s) =
     (snd (b s))\<lparr>stdout := stdout (snd (b s)) @
        (case fst (b s) of Inl x \<Rightarrow> main_lines x | Inr v \<Rightarrow> [])\<rparr>"
  by (cases "b s"; cases "fst (b s)") (simp_all add: try_except_def main_handler_eq)

lemma try_main_fst:
  "fst (try_except b main_handler s) =
     (case fst (b s) of
        Inl x \<Rightarrow> Inl (SystemExit (case x of SystemExit n \<Rightarrow> n | Exception t \<Rightarrow> 1 | KeyboardInterrupt \<Rightarrow> 1))
      | Inr v \<Rightarrow> Inr v)"
  by (cases "b s"; cases "fst (b s)") (simp_all add: try_except_def main_handler_eq)

lemma main_as_try:
  "\<exists>body. main e act opts s =
     try_except body main_handler (prepared e (parse_args act opts) s)"
proof (cases act)
  case Run
  then show ?thesis using main_Run by blast
next
  case Train
  then show ?thesis using main_Train by blast
next
  case Test
  then show ?thesis using main_Test by blast
next
  case Replay
  have "main e Replay opts s =
      try_except
        (case ns_task_id (parse_args Replay opts) of
           None \<Rightarrow>
             and_then (py_print (cross_mark @ '' Error: task-id is required for replay action''))
               (\<lambda>_. sys_exit 1)
         | Some t \<Rightarrow>
             if t = []
             then and_then (py_print (cross_mark @ '' Error: task-id is required for replay action''))
                    (\<lambda>_. sys_exit 1)
             else replay e t)
        main_handler (prepared e (parse_args Replay opts) s)"
    by (simp add: main_def Let_def main_prepare del: and_then_new_dict)
  then show ?thesis unfolding Replay by blast
qed

lemma main_fst:
  "fst (main e act opts s) = Inr () \<or> (\<exists>n. fst (main e act opts s) = Inl (SystemExit n))"
proof -
  obtain body where "main e act opts s =
      try_except body main_handler (prepared e (parse_args act opts) s)"
    using main_as_try by blast
  then show ?thesis
    by (cases "fst (body (prepared e (parse_args act opts) s))") (simp_all add: try_main_fst)
qed

lemma program_NoArguments_snd:
  "snd (program e NoArguments s) =
     (snd (run e None (s\<lparr>stdout := stdout s @ [''Running debate crew with default settings...'']\<rparr>)))
       \<lparr>stderr :=
          stderr (snd (run e None
            (s\<lparr>stdout := stdout s @ [''Running debate crew with default settings...'']\<rparr>))) @
          (case fst (run e None
              (s\<lparr>stdout := stdout s @ [''Running debate crew with default settings...'']\<rparr>)) of
             Inr v \<Rightarrow> []
           | Inl (SystemExit n) \<Rightarrow> []
           | Inl (Exception t) \<Rightarrow> traceback e (Exception t)
           | Inl KeyboardInterrupt \<Rightarrow> traceback e KeyboardInterrupt)\<rparr>"
  by (simp add: program_def split: prod.splits sum.splits exn.splits)

lemma program_Arguments_snd:
  "snd (program e (Arguments act opts) s) = snd (main e act opts s)"
  using main_fst [of e act opts s]
  by (auto simp add: program_def split: prod.splits sum.splits exn.splits)

lemma program_NoArguments_fst:
  "fst (program e NoArguments s) =
     (case fst (run e None (s\<lparr>stdout := stdout s @ [''Running debate crew with default settings...'']\<rparr>)) of
        Inr v \<Rightarrow> Exit 0
      | Inl (SystemExit n) \<Rightarrow> Exit n
      | Inl (Exception t) \<Rightarrow> Exit 1
      | Inl KeyboardInterrupt \<Rightarrow> Uncaught KeyboardInterrupt)"
  by (simp add: program_def split: prod.splits sum.splits exn.splits)

lemma program_Arguments_fst:
  "fst (program e (Arguments act opts) s) =
     (case fst (main e act opts s) of
        Inr v \<Rightarrow> Exit 0
      | Inl (SystemExit n) \<Rightarrow> Exit n
      | Inl (Exception t) \<Rightarrow> Exit 1
      | Inl KeyboardInterrupt \<Rightarrow> Uncaught KeyboardInterrupt)"
  by (simp add: program_def split: prod.splits sum.splits exn.splits)

lemma str_int_2026: "str_int 2026 = ''2026''"
  by (simp add: str_int_def str_nat.simps digit_char_def)

lemma run_calls:
  assumes "Debate e = Inr c"
  shows "calls (snd (run e inputs s)) =
           calls s @ [CallKickoff (passed_addr inputs s) (passed_inputs e inputs s)]"
  using assms
  by (cases inputs) (simp_all add: run_None run_Some passed_addr_def passed_inputs_def)

lemma train_calls:
  assumes "Debate e = Inr c"
  shows "calls (snd (train e n f inputs s)) =
           calls s @ [CallTrain (case n of None \<Rightarrow> 5 | Some k \<Rightarrow> k)
                        (case f of None \<Rightarrow> ''training_results.json'' | Some g \<Rightarrow> g)
                        (passed_addr inputs s) (passed_inputs e inputs s)]"
  using assms
  by (cases inputs) (simp_all add: train_None train_Some passed_addr_def passed_inputs_def)

lemma test_calls:
  assumes "Debate e = Inr c"
  shows "calls (snd (test e n l inputs s)) =
           calls s @ [CallTest (case n of None \<Rightarrow> 3 | Some k \<Rightarrow> k)
                        (case l of None \<Rightarrow> ''openai/gpt-4o-mini'' | Some g \<Rightarrow> g)
                        (passed_addr inputs s) (passed_inputs e inputs s)]"
  using assms
  by (cases inputs) (simp_all add: test_None test_Some passed_addr_def passed_inputs_def)

lemma passed_motion:
  assumes "not_supplied ''motion'' inputs s"
  shows "passed_inputs e inputs s ''motion'' = Some (PStr default_motion)"
proof (cases inputs)
  case None
  then show ?thesis
    by (simp add: passed_inputs_def validated_default, simp add: get_default_inputs_def)
next
  case (Some a)
  with assms show ?thesis
    by (simp add: passed_inputs_def not_supplied_def validated_motion)
qed

lemma passed_year:
  assumes "not_supplied ''current_year'' inputs s"
  shows "passed_inputs e inputs s ''current_year'' = Some (PStr (str_int (now_year e)))"
proof (cases inputs)
  case None
  then show ?thesis
    by (simp add: passed_inputs_def validated_default, simp add: get_default_inputs_def)
next
  case (Some a)
  with assms show ?thesis
    by (simp add: passed_inputs_def not_supplied_def validated_year)
qed

subsection \<open>The calls a command line makes\<close>

lemma run_Debate_fails:
  assumes "Debate e = Inl x"
  shows "run e (Some a) s =
     (Inl x,
      s\<lparr>heap := (heap s)(a := validated e (heap s a)),
         stdout := stdout s @
           [''Starting debate on motion: '' @ py_str (the (validated e (heap s a) ''motion'')),
            ''Current year: '' @ py_str (the (validated e (heap s a) ''current_year'')),
            dashes] @ handler_lines ''running'' x\<rparr>)"
  using assms
  by (simp add: run_def and_then_getitem subscript_validated_motion subscript_validated_year
        validated_motion validated_year try_except_def raise_exn_def report_and_reraise_eq)

lemma foldl_store_motion:
  "ns_motion ns = ns_motion ns' \<Longrightarrow>
   ns_motion (foldl store ns opts) = ns_motion (foldl store ns' opts)"
proof (induction opts arbitrary: ns ns')
  case Nil
  then show ?case by simp
next
  case (Cons o1 opts)
  have "ns_motion (store ns o1) = ns_motion (store ns' o1)"
    using Cons.prems by (cases o1) simp_all
  then have "ns_motion (foldl store (store ns o1) opts) = ns_motion (foldl store (store ns' o1) opts)"
    by (rule Cons.IH)
  then show ?case by simp
qed

lemma parse_args_motion: "ns_motion (parse_args act opts) = ns_motion (parse_args Run opts)"
  unfolding parse_args_def by (rule foldl_store_motion) (simp add: parser_defaults_def)

lemma prepared_fields [simp]:
  "calls (prepared e args s) = calls s"
  "stdout (prepared e args s) = stdout s"
  "stderr (prepared e args s) = stderr s"
  "heap (prepared e args s) (next_addr s) = prepared_inputs e args"
  by (simp_all add: prepared_def)

lemma program_Run_calls:
  assumes "Debate e = Inr c"
  shows "calls (snd (program e (Arguments Run opts) s)) =
           calls s @ [CallKickoff (next_addr s) (prepared_inputs e (parse_args Run opts))]"
  using assms
  by (simp add: program_Arguments_snd main_Run try_main_snd run_Some validated_prepared)

lemma program_Train_calls:
  assumes "Debate e = Inr c"
  shows "calls (snd (program e (Arguments Train opts) s)) =
           calls s @ [CallTrain (ns_iterations (parse_args Train opts))
                        (ns_filename (parse_args Train opts)) (next_addr s)
                        (prepared_inputs e (parse_args Train opts))]"
  using assms
  by (simp add: program_Arguments_snd main_Train try_main_snd train_Some validated_prepared)

lemma program_Test_calls:
  assumes "Debate e = Inr c"
  shows "calls (snd (program e (Arguments Test opts) s)) =
           calls s @ [CallTest (ns_iterations (parse_args Test opts))
                        (ns_eval_llm (parse_args Test opts)) (next_addr s)
                        (prepared_inputs e (parse_args Test opts))]"
  using assms
  by (simp add: program_Arguments_snd main_Test try_main_snd test_Some validated_prepared)

lemma program_Replay_calls:
  assumes "Debate e = Inr c" and "ns_task_id (parse_args Replay opts) = Some t" and "t \<noteq> []"
  shows "calls (snd (program e (Arguments Replay opts) s)) = calls s @ [CallReplay t]"
  using assms
  by (simp add: program_Arguments_snd main_Replay try_main_snd replay_eq)

lemma program_NoArguments_calls:
  assumes "Debate e = Inr c"
  shows "calls (snd (program e NoArguments s)) =
           calls s @ [CallKickoff (next_addr s) (get_default_inputs e)]"
  using assms
  by (simp add: program_NoArguments_snd run_None run_Some validated_default)

lemma prepared_inputs_motion:
  assumes "ns_motion args = Some m" and "m \<noteq> []"
  shows "prepared_inputs e args =
           [''motion'' \<mapsto> PStr m, ''current_year'' \<mapsto> PStr (str_int (now_year e))]"
  using assms by (auto simp add: prepared_inputs_def get_default_inputs_def fun_eq_iff)

subsection \<open>No arguments and the run action\<close>

lemma prepared_inputs_no_flags: "prepared_inputs e (parse_args act []) = get_default_inputs e"
  by (simp add: prepared_inputs_def parse_args_def parser_defaults_def)

lemma prepared_heap:
  "heap (prepared e args s) = (heap s)(next_addr s := prepared_inputs e args)"
  by (simp add: prepared_def)

lemma program_Run_heap:
  "heap (snd (program e (Arguments Run []) s)) = heap (snd (program e NoArguments s))"
proof (cases "Debate e")
  case (Inl x)
  then show ?thesis
    by (simp add: program_Arguments_snd program_NoArguments_snd main_Run try_main_snd run_None
          run_Debate_fails prepared_heap prepared_inputs_no_flags)
next
  case (Inr c)
  then show ?thesis
    by (simp add: program_Arguments_snd program_NoArguments_snd main_Run try_main_snd run_None
          run_Some prepared_heap prepared_inputs_no_flags)
qed

lemma program_Run_calls_eq:
  "calls (snd (program e (Arguments Run []) s)) = calls (snd (program e NoArguments s))"
proof (cases "Debate e")
  case (Inl x)
  then show ?thesis
    by (simp add: program_Arguments_snd program_NoArguments_snd main_Run try_main_snd run_None
          run_Debate_fails)
next
  case (Inr c)
  then show ?thesis
    by (simp add: program_Run_calls program_NoArguments_calls prepared_inputs_no_flags)
qed

lemma run_None_calls_banner:
  "calls (snd (run e None (s\<lparr>stdout := l\<rparr>))) = calls (snd (run e None s))"
proof (cases "Debate e")
  case (Inl x)
  then show ?thesis by (simp add: run_None run_Debate_fails)
next
  case (Inr c)
  then show ?thesis by (simp add: run_None run_Some)
qed

text \<open>The sample collaborators, evaluated.\<close>

lemma env_with_simps [simp]:
  "Debate (env_with c) = Inr c" "now_year (env_with c) = 2026"
  by (simp_all add: env_with_def)

lemma crew_raising_simps [simp]:
  "crew_kickoff (crew_raising x) d = (Inl x, d)"
  "crew_train (crew_raising x) n f d = (Inl x, d)"
  "crew_replay (crew_raising x) t = Inl x"
  "crew_test (crew_raising x) n l d = (Inl x, d)"
  by (simp_all add: crew_raising_def)

lemma crew_returning_simps [simp]:
  "crew_kickoff (crew_returning v) d = (Inr v, d)"
  "crew_train (crew_returning v) n f d = (Inr v, d)"
  "crew_replay (crew_returning v) t = Inr v"
  "crew_test (crew_returning v) n l d = (Inr v, d)"
  by (simp_all add: crew_returning_def)

lemma default_lines:
  "the (get_default_inputs e ''motion'') = PStr default_motion"
  "the (get_default_inputs e ''current_year'') = PStr (str_int (now_year e))"
  by (simp_all add: get_default_inputs_def)

subsection \<open>An exception in the delegated call\<close>

lemma stderr_run [simp]: "stderr (snd (run e inputs s)) = stderr s"
proof (cases "Debate e")
  case (Inl x)
  then show ?thesis by (cases inputs) (simp_all add: run_None run_Debate_fails)
next
  case (Inr c)
  then show ?thesis by (cases inputs) (simp_all add: run_None run_Some)
qed

lemma delegated_raise:
  assumes "Debate e = Inr c"
    and "calls (snd (program e cl s)) = calls s @ [k]"
    and "outcome_of c k = Inl x"
  shows "fst (program e cl s) =
           (case cl of
              NoArguments \<Rightarrow>
                (case x of Exception t \<Rightarrow> Exit 1
                 | KeyboardInterrupt \<Rightarrow> Uncaught KeyboardInterrupt
                 | SystemExit n \<Rightarrow> Exit n)
            | Arguments act opts \<Rightarrow>
                Exit (case x of Exception t \<Rightarrow> 1 | KeyboardInterrupt \<Rightarrow> 1
                      | SystemExit n \<Rightarrow> n))
       \<and> (\<exists>pre. stdout (snd (program e cl s)) =
             stdout s @ pre
               @ handler_lines (activity k) x
               @ (case cl of NoArguments \<Rightarrow> []
                  | Arguments act opts \<Rightarrow> main_lines x))
       \<and> stderr (snd (program e cl s)) =
           stderr s @
             (case cl of
                NoArguments \<Rightarrow>
                  (case x of Exception t \<Rightarrow> traceback e (Exception t)
                   | KeyboardInterrupt \<Rightarrow> traceback e KeyboardInterrupt
                   | SystemExit n \<Rightarrow> [])
              | Arguments act opts \<Rightarrow> [])"
proof (cases cl)
  case NoArguments
  have k: "k = CallKickoff (next_addr s) (get_default_inputs e)"
    using assms(2) program_NoArguments_calls [OF assms(1), of s] NoArguments by simp
  then have r: "fst (crew_kickoff c (get_default_inputs e)) = Inl x"
    using assms(3) by simp
  have 1: "fst (program e cl s) =
             (case x of Exception t \<Rightarrow> Exit 1
              | KeyboardInterrupt \<Rightarrow> Uncaught KeyboardInterrupt
              | SystemExit n \<Rightarrow> Exit n)"
    by (simp add: NoArguments program_NoArguments_fst run_None run_Some [OF assms(1)]
          validated_default r)
  have 2: "stdout (snd (program e cl s)) =
             stdout s @
             [''Running debate crew with default settings...'',
              ''Starting debate on motion: '' @ py_str (the (get_default_inputs e ''motion'')),
              ''Current year: '' @ py_str (the (get_default_inputs e ''current_year'')),
              dashes]
             @ handler_lines (activity k) x @ []"
    by (simp add: NoArguments program_NoArguments_snd run_None run_Some [OF assms(1)]
          validated_default r k)
  have 3: "stderr (snd (program e cl s)) =
             stderr s @
               (case x of Exception t \<Rightarrow> traceback e (Exception t)
                | KeyboardInterrupt \<Rightarrow> traceback e KeyboardInterrupt
                | SystemExit n \<Rightarrow> [])"
    by (cases x)
       (simp_all add: NoArguments program_NoArguments_snd run_None run_Some [OF assms(1)]
          validated_default r)
  from 2 have "\<exists>pre. stdout (snd (program e cl s)) =
             stdout s @ pre
               @ handler_lines (activity k) x @ []"
    by blast
  with 1 3 show ?thesis by (simp add: NoArguments)
next
  case (Arguments act opts)
  show ?thesis
  proof (cases act)
    case Run
    define D where "D = prepared_inputs e (parse_args Run opts)"
    have k: "k = CallKickoff (next_addr s) D"
      using assms(2) program_Run_calls [OF assms(1), of opts s] Arguments Run by (simp add: D_def)
    then have r: "fst (crew_kickoff c D) = Inl x"
      using assms(3) by simp
    have 1: "fst (program e cl s) =
               Exit (case x of Exception t \<Rightarrow> 1 | KeyboardInterrupt \<Rightarrow> 1
                     | SystemExit n \<Rightarrow> n)"
      using r
      by (simp add: Arguments Run program_Arguments_fst main_Run try_main_fst
            run_Some [OF assms(1)] validated_prepared D_def)
    have 2: "stdout (snd (program e cl s)) =
               stdout s @
               [''Starting debate on motion: '' @ py_str (the (D ''motion'')),
                ''Current year: '' @ py_str (the (D ''current_year'')), dashes]
               @ handler_lines (activity k) x
               @ main_lines x"
      using r
      by (simp add: Arguments Run program_Arguments_snd main_Run try_main_snd
            run_Some [OF assms(1)] validated_prepared D_def k)
    have 3: "stderr (snd (program e cl s)) = stderr s"
      by (simp add: Arguments Run program_Arguments_snd main_Run try_main_snd)
    from 2 have "\<exists>pre. stdout (snd (program e cl s)) =
               stdout s @ pre
                 @ handler_lines (activity k) x
                 @ main_lines x"
      by blast
    with 1 3 show ?thesis by (simp add: Arguments)
  next
    case Train
    define D where "D = prepared_inputs e (parse_args Train opts)"
    define n where "n = ns_iterations (parse_args Train opts)"
    define f where "f = ns_filename (parse_args Train opts)"
    have k: "k = CallTrain n f (next_addr s) D"
      using assms(2) program_Train_calls [OF assms(1), of opts s] Arguments Train
      by (simp add: D_def n_def f_def)
    then have r: "fst (crew_train c n f D) = Inl x"
      using assms(3) by simp
    have 1: "fst (program e cl s) =
               Exit (case x of Exception t \<Rightarrow> 1 | KeyboardInterrupt \<Rightarrow> 1
                     | SystemExit n \<Rightarrow> n)"
      using r
      by (simp add: Arguments Train program_Arguments_fst main_Train try_main_fst
            train_Some [OF assms(1)] validated_prepared D_def n_def f_def)
    have 2: "stdout (snd (program e cl s)) =
               stdout s @
               [''Training crew for '' @ str_int n @ '' iterations...'',
                ''Motion: '' @ py_str (the (D ''motion'')),
                ''Results will be saved to: '' @ f, dashes]
               @ handler_lines (activity k) x
               @ main_lines x"
      using r
      by (simp add: Arguments Train program_Arguments_snd main_Train try_main_snd
            train_Some [OF assms(1)] validated_prepared D_def n_def f_def k)
    have 3: "stderr (snd (program e cl s)) = stderr s"
      by (simp add: Arguments Train program_Arguments_snd main_Train try_main_snd
            train_Some [OF assms(1)])
    from 2 have "\<exists>pre. stdout (snd (program e cl s)) =
               stdout s @ pre
                 @ handler_lines (activity k) x
                 @ main_lines x"
      by blast
    with 1 3 show ?thesis by (simp add: Arguments)
  next
    case Replay
    show ?thesis
    proof (cases "ns_task_id (parse_args Replay opts) = None
                  \<or> ns_task_id (parse_args Replay opts) = Some []")
      case True
      then have "calls (snd (program e cl s)) = calls s"
        by (simp add: Arguments Replay program_Arguments_snd main_Replay_missing)
      with assms(2) show ?thesis by simp
    next
      case False
      then obtain tid where tid: "ns_task_id (parse_args Replay opts) = Some tid" "tid \<noteq> []"
        by (cases "ns_task_id (parse_args Replay opts)") auto
      have k: "k = CallReplay tid"
        using assms(2) program_Replay_calls [OF assms(1) tid, of s] Arguments Replay by simp
      then have r: "crew_replay c tid = Inl x"
        using assms(3) by simp
      have 1: "fst (program e cl s) =
               Exit (case x of Exception t \<Rightarrow> 1 | KeyboardInterrupt \<Rightarrow> 1
                     | SystemExit n \<Rightarrow> n)"
        using r
        by (simp add: Arguments Replay program_Arguments_fst main_Replay [OF tid] try_main_fst
              replay_eq [OF assms(1)])
      have 2: "stdout (snd (program e cl s)) =
                 stdout s @
                 [''Replaying crew execution from task: '' @ tid, dashes]
                 @ handler_lines (activity k) x
                 @ main_lines x"
        using r
        by (simp add: Arguments Replay program_Arguments_snd main_Replay [OF tid] try_main_snd
              replay_eq [OF assms(1)] k)
      have 3: "stderr (snd (program e cl s)) = stderr s"
        by (simp add: Arguments Replay program_Arguments_snd main_Replay [OF tid] try_main_snd
              replay_eq [OF assms(1)])
      from 2 have "\<exists>pre. stdout (snd (program e cl s)) =
                 stdout s @ pre
                   @ handler_lines (activity k) x
                   @ main_lines x"
        by blast
      with 1 3 show ?thesis by (simp add: Arguments)
    qed
  next
    case Test
    define D where "D = prepared_inputs e (parse_args Test opts)"
    define n where "n = ns_iterations (parse_args Test opts)"
    define l where "l = ns_eval_llm (parse_args Test opts)"
    have k: "k = CallTest n l (next_addr s) D"
      using assms(2) program_Test_calls [OF assms(1), of opts s] Arguments Test
      by (simp add: D_def n_def l_def)
    then have r: "fst (crew_test c n l D) = Inl x"
      using assms(3) by simp
    have 1: "fst (program e cl s) =
               Exit (case x of Exception t \<Rightarrow> 1 | KeyboardInterrupt \<Rightarrow> 1
                     | SystemExit n \<Rightarrow> n)"
      using r
      by (simp add: Arguments Test program_Arguments_fst main_Test try_main_fst
            test_Some [OF assms(1)] validated_prepared D_def n_def l_def)
    have 2: "stdout (snd (program e cl s)) =
               stdout s @
               [''Testing crew for '' @ str_int n @ '' iterations...'',
                ''Evaluation LLM: '' @ l,
                ''Motion: '' @ py_str (the (D ''motion'')), dashes]
               @ handler_lines (activity k) x
               @ main_lines x"
      using r
      by (simp add: Arguments Test program_Arguments_snd main_Test try_main_snd
            test_Some [OF assms(1)] validated_prepared D_def n_def l_def k)
    have 3: "stderr (snd (program e cl s)) = stderr s"
      by (simp add: Arguments Test program_Arguments_snd main_Test try_main_snd
            test_Some [OF assms(1)])
    from 2 have "\<exists>pre. stdout (snd (program e cl s)) =
               stdout s @ pre
                 @ handler_lines (activity k) x
                 @ main_lines x"
      by blast
    with 1 3 show ?thesis by (simp add: Arguments)
  qed
qed

lemma interrupt_caught_by_main:
  assumes "Debate e = Inr c"
    and "calls (snd (program e (Arguments act opts) s)) = calls s @ [k]"
    and "outcome_of c k = Inl KeyboardInterrupt"
  shows "fst (program e (Arguments act opts) s) = Exit 1
       \<and> (\<exists>pre. stdout (snd (program e (Arguments act opts) s)) =
             stdout s @ pre @ [[CHR 0x0A] @ warning_sign @ ''  Operation cancelled by user''])"
  using delegated_raise [OF assms] by (simp add: handler_lines_def main_lines_def)

lemma interrupt_not_caught_without_arguments:
  assumes "Debate e = Inr c"
    and "fst (crew_kickoff c (get_default_inputs e)) = Inl KeyboardInterrupt"
  shows "fst (program e NoArguments s) = Uncaught KeyboardInterrupt
       \<and> stdout (snd (program e NoArguments s)) =
           stdout s @
             [''Running debate crew with default settings...'',
              ''Starting debate on motion: '' @ default_motion,
              ''Current year: '' @ str_int (now_year e), dashes]"
  using assms
  by (simp add: program_NoArguments_fst program_NoArguments_snd run_None run_Some [OF assms(1)]
        validated_default handler_lines_def default_lines)

lemma run_fst:
  assumes "Debate e = Inr c"
  shows "fst (run e inputs s) =
           (case fst (crew_kickoff c (passed_inputs e inputs s)) of
              Inl x \<Rightarrow> Inl x | Inr v \<Rightarrow> Inr ())"
  using assms by (cases inputs) (simp_all add: run_None run_Some passed_inputs_def)

lemma train_fst:
  assumes "Debate e = Inr c"
  shows "fst (train e n f inputs s) =
           (case fst (crew_train c (case n of None \<Rightarrow> 5 | Some k \<Rightarrow> k)
                        (case f of None \<Rightarrow> ''training_results.json'' | Some g \<Rightarrow> g)
                        (passed_inputs e inputs s)) of
              Inl x \<Rightarrow> Inl x | Inr v \<Rightarrow> Inr ())"
  using assms by (cases inputs) (simp_all add: train_None train_Some passed_inputs_def)

lemma test_fst:
  assumes "Debate e = Inr c"
  shows "fst (test e n l inputs s) =
           (case fst (crew_test c (case n of None \<Rightarrow> 3 | Some k \<Rightarrow> k)
                        (case l of None \<Rightarrow> ''openai/gpt-4o-mini'' | Some g \<Rightarrow> g)
                        (passed_inputs e inputs s)) of
              Inl x \<Rightarrow> Inl x | Inr v \<Rightarrow> Inr ())"
  using assms by (cases inputs) (simp_all add: test_None test_Some passed_inputs_def)

lemma stderr_train:
  assumes "Debate e = Inr c"
  shows "stderr (snd (train e n f inputs s)) = stderr s"
  using assms by (cases inputs) (simp_all add: train_None train_Some)

lemma stderr_test:
  assumes "Debate e = Inr c"
  shows "stderr (snd (test e n l inputs s)) = stderr s"
  using assms by (cases inputs) (simp_all add: test_None test_Some)

subsection \<open>The mapping object\<close>

lemma heap_run_Some:
  assumes "Debate e = Inr c"
  shows "heap (snd (run e (Some a) s)) =
           (heap s)(a := snd (crew_kickoff c (heap (snd (validate_inputs e a s)) a)))"
  using assms by (simp add: run_Some validate_inputs_eq)

lemma heap_train_Some:
  assumes "Debate e = Inr c"
  shows "heap (snd (train e n f (Some a) s)) =
           (heap s)(a := snd (crew_train c (case n of None \<Rightarrow> 5 | Some k \<Rightarrow> k)
                               (case f of None \<Rightarrow> ''training_results.json'' | Some g \<Rightarrow> g)
                               (heap (snd (validate_inputs e a s)) a)))"
  using assms by (simp add: train_Some validate_inputs_eq)

lemma heap_test_Some:
  assumes "Debate e = Inr c"
  shows "heap (snd (test e n l (Some a) s)) =
           (heap s)(a := snd (crew_test c (case n of None \<Rightarrow> 3 | Some k \<Rightarrow> k)
                               (case l of None \<Rightarrow> ''openai/gpt-4o-mini'' | Some g \<Rightarrow> g)
                               (heap (snd (validate_inputs e a s)) a)))"
  using assms by (simp add: test_Some validate_inputs_eq)

lemma validate_inputs_fixed:
  assumes "truthy (dict_get (heap s a) ''motion'')" and "truthy (dict_get (heap s a) ''current_year'')"
  shows "validate_inputs e a s = (Inr a, s)"
  using assms by (simp add: validate_inputs_eq validated_fixed)

lemma validate_inputs_fills_motion:
  assumes "\<not> truthy (dict_get (heap s a) ''motion'')"
  shows "heap (snd (validate_inputs e a s)) a ''motion'' = Some (PStr default_motion)"
  using assms by (simp add: validate_inputs_eq validated_motion)

lemma validate_inputs_fills_year:
  assumes "\<not> truthy (dict_get (heap s a) ''current_year'')"
  shows "heap (snd (validate_inputs e a s)) a ''current_year'' = Some (PStr (str_int (now_year e)))"
  using assms by (simp add: validate_inputs_eq validated_year)

section \<open>Properties of the specification\<close>

subsection \<open>Defaults\<close>

text \<open>
  C1. Whenever \<open>run\<close>, \<open>train\<close> or \<open>test\<close> is called with no motion supplied (the
  \<open>inputs\<close> argument is absent, or \<open>inputs.get('motion')\<close> is missing or empty), the
  mapping handed to the delegated operation has \<open>motion\<close> equal to the fixed default
  sentence. The delegated operation is reached when \<open>Debate().crew()\<close> gives the
  framework object.
\<close>

theorem default_motion_when_not_supplied:
  assumes "Debate e = Inr c" and "not_supplied ''motion'' inputs s"
  shows "(\<exists>a d. calls (snd (run e inputs s)) = calls s @ [CallKickoff a d]
            \<and> d ''motion'' = Some (PStr ''AI LLMs will significantly improve human productivity''))
       \<and> (\<exists>a d. calls (snd (train e n f inputs s)) =
                   calls s @ [CallTrain (case n of None \<Rightarrow> 5 | Some k \<Rightarrow> k)
                                (case f of None \<Rightarrow> ''training_results.json'' | Some g \<Rightarrow> g) a d]
            \<and> d ''motion'' = Some (PStr ''AI LLMs will significantly improve human productivity''))
       \<and> (\<exists>a d. calls (snd (test e n l inputs s)) =
                   calls s @ [CallTest (case n of None \<Rightarrow> 3 | Some k \<Rightarrow> k)
                                (case l of None \<Rightarrow> ''openai/gpt-4o-mini'' | Some g \<Rightarrow> g) a d]
            \<and> d ''motion'' = Some (PStr ''AI LLMs will significantly improve human productivity''))"
proof -
  have m: "passed_inputs e inputs s ''motion'' =
             Some (PStr ''AI LLMs will significantly improve human productivity'')"
    using passed_motion [OF assms(2)] by (simp add: default_motion_def)
  show ?thesis
    using m run_calls [OF assms(1)] train_calls [OF assms(1)] test_calls [OF assms(1)]
    by blast
qed

theorem default_motion_when_not_supplied_witness:
  "not_supplied ''motion'' (Some 0) caller_state
   \<and> (\<exists>a d. calls (snd (run (env_with (crew_returning PNone)) (Some 0) caller_state)) = [CallKickoff a d]
         \<and> d ''motion'' = Some (PStr ''AI LLMs will significantly improve human productivity''))"
proof -
  have d: "Debate (env_with (crew_returning PNone)) = Inr (crew_returning PNone)"
    by (simp add: env_with_def)
  have n: "not_supplied ''motion'' (Some 0) caller_state"
    by (simp add: not_supplied_def caller_state_def dict_get_def)
  show ?thesis
    using n default_motion_when_not_supplied [OF d n] by (simp add: caller_state_def)
qed

text \<open>
  C2. Whenever \<open>run\<close>, \<open>train\<close> or \<open>test\<close> is called with no \<open>current_year\<close>
  supplied, the mapping handed to the delegated operation has \<open>current_year\<close> equal
  to the string form of the current calendar year.
\<close>

theorem default_year_when_not_supplied:
  assumes "Debate e = Inr c" and "not_supplied ''current_year'' inputs s"
  shows "(\<exists>a d. calls (snd (run e inputs s)) = calls s @ [CallKickoff a d]
            \<and> d ''current_year'' = Some (PStr (str_int (now_year e))))
       \<and> (\<exists>a d. calls (snd (train e n f inputs s)) =
                   calls s @ [CallTrain (case n of None \<Rightarrow> 5 | Some k \<Rightarrow> k)
                                (case f of None \<Rightarrow> ''training_results.json'' | Some g \<Rightarrow> g) a d]
            \<and> d ''current_year'' = Some (PStr (str_int (now_year e))))
       \<and> (\<exists>a d. calls (snd (test e n l inputs s)) =
                   calls s @ [CallTest (case n of None \<Rightarrow> 3 | Some k \<Rightarrow> k)
                                (case l of None \<Rightarrow> ''openai/gpt-4o-mini'' | Some g \<Rightarrow> g) a d]
            \<and> d ''current_year'' = Some (PStr (str_int (now_year e))))"
  using passed_year [OF assms(2)] run_calls [OF assms(1)] train_calls [OF assms(1)]
    test_calls [OF assms(1)]
  by blast

theorem default_year_when_not_supplied_witness:
  "not_supplied ''current_year'' None initial_state
   \<and> (\<exists>a d. calls (snd (run (env_with (crew_returning PNone)) None initial_state)) = [CallKickoff a d]
         \<and> d ''current_year'' = Some (PStr ''2026''))"
proof -
  have d: "Debate (env_with (crew_returning PNone)) = Inr (crew_returning PNone)"
    by (simp add: env_with_def)
  have n: "not_supplied ''current_year'' None initial_state"
    by (simp add: not_supplied_def)
  have y: "str_int (now_year (env_with (crew_returning PNone))) = ''2026''"
    by (simp add: env_with_def str_int_2026)
  show ?thesis
    using n default_year_when_not_supplied [OF d n] by (simp add: initial_state_def y str_int_2026)
qed

subsection \<open>Validation\<close>

text \<open>
  C10. \<open>validate_inputs\<close> is idempotent: a second application returns the same object
  and changes nothing. Its result has truthy \<open>motion\<close> and \<open>current_year\<close>, and every
  other key of the mapping keeps its value.
\<close>

theorem validate_inputs_idempotent:
  "validate_inputs e a (snd (validate_inputs e a s)) = validate_inputs e a s
   \<and> fst (validate_inputs e a s) = Inr a
   \<and> truthy (dict_get (heap (snd (validate_inputs e a s)) a) ''motion'')
   \<and> truthy (dict_get (heap (snd (validate_inputs e a s)) a) ''current_year'')
   \<and> (\<forall>k. k \<noteq> ''motion'' \<longrightarrow> k \<noteq> ''current_year'' \<longrightarrow>
          heap (snd (validate_inputs e a s)) a k = heap s a k)"
  by (simp add: validate_inputs_eq validated_idem validated_truthy_motion validated_truthy_year
        validated_other)

theorem validate_inputs_idempotent_witness:
  "''audience'' \<noteq> ''motion'' \<and> ''audience'' \<noteq> ''current_year''
   \<and> heap (snd (validate_inputs (env_with (crew_returning PNone)) 0 caller_state)) 0 ''audience''
       = Some (PStr ''students'')
   \<and> truthy (dict_get (heap (snd (validate_inputs (env_with (crew_returning PNone)) 0 caller_state)) 0)
        ''motion'')"
  using validate_inputs_idempotent [of "env_with (crew_returning PNone)" 0 caller_state]
  by (simp add: caller_state_def)

subsection \<open>The command line\<close>

text \<open>
  C3. With action \<open>replay\<close>, when the \<open>--task-id\<close> flag is absent or its value is the
  empty string, the process prints the error message, exits with status 1, and the
  delegated replay operation is not called.
\<close>

theorem replay_without_task_id:
  assumes "(\<forall>t. TaskId t \<notin> set opts) \<or> ns_task_id (parse_args Replay opts) = Some []"
  shows "fst (program e (Arguments Replay opts) s) = Exit 1
       \<and> stdout (snd (program e (Arguments Replay opts) s)) =
           stdout s @ [cross_mark @ '' Error: task-id is required for replay action'']
       \<and> calls (snd (program e (Arguments Replay opts) s)) = calls s"
proof -
  have "ns_task_id (parse_args Replay opts) = None \<or> ns_task_id (parse_args Replay opts) = Some []"
    using assms parse_args_task_id by blast
  then show ?thesis
    by (simp add: program_Arguments_fst program_Arguments_snd main_Replay_missing)
qed

theorem replay_without_task_id_witness:
  "(\<forall>t. TaskId t \<notin> set [Motion ''Cats'']) 
   \<and> fst (program (env_with (crew_returning PNone)) (Arguments Replay [Motion ''Cats'']) initial_state) = Exit 1
   \<and> calls (snd (program (env_with (crew_returning PNone)) (Arguments Replay [Motion ''Cats'']) initial_state)) = []"
proof -
  have h: "(\<forall>t. TaskId t \<notin> set [Motion ''Cats'']) \<or>
           ns_task_id (parse_args Replay [Motion ''Cats'']) = Some []"
    by simp
  show ?thesis
    using replay_without_task_id [OF h, of "env_with (crew_returning PNone)" initial_state]
    by (simp add: initial_state_def)
qed

text \<open>
  C6. With action \<open>train\<close> or \<open>test\<close> and no \<open>--iterations\<close> flag, the delegated
  training or evaluation operation is called with an iteration count of 5 (the default
  of the parser, not the default 3 of the parameter of \<open>test\<close>).
\<close>

theorem iterations_default_five:
  assumes "Debate e = Inr c" and "\<forall>n. Iterations n \<notin> set opts"
  shows "(\<exists>f a d. calls (snd (program e (Arguments Train opts) s)) = calls s @ [CallTrain 5 f a d])
       \<and> (\<exists>l a d. calls (snd (program e (Arguments Test opts) s)) = calls s @ [CallTest 5 l a d])"
  using program_Train_calls [OF assms(1), of opts s] program_Test_calls [OF assms(1), of opts s]
    parse_args_iterations [OF assms(2)]
  by simp

theorem iterations_default_five_witness:
  "(\<forall>n. Iterations n \<notin> set [Filename ''out.json''])
   \<and> (\<exists>f a d. calls (snd (program (env_with (crew_returning PNone))
                   (Arguments Train [Filename ''out.json'']) initial_state)) = [CallTrain 5 f a d])"
proof -
  have d: "Debate (env_with (crew_returning PNone)) = Inr (crew_returning PNone)"
    by (simp add: env_with_def)
  have h: "\<forall>n. Iterations n \<notin> set [Filename ''out.json'']"
    by simp
  show ?thesis
    using iterations_default_five [OF d h, of initial_state] by (simp add: initial_state_def)
qed

text \<open>
  C7. A non-empty \<open>--motion\<close> value replaces the default motion in the mapping handed
  to the delegated operation, and \<open>current_year\<close> keeps its default: the mapping is
  exactly \<open>{motion: <the value>, current_year: <this year>}\<close>. The example of the
  specification, \<open>--motion "Remote work improves productivity" run\<close>, is the
  instance below.
\<close>

theorem motion_flag_overrides:
  assumes "Debate e = Inr c" and "ns_motion (parse_args Run opts) = Some m" and "m \<noteq> []"
  shows "calls (snd (program e (Arguments Run opts) s)) =
           calls s @ [CallKickoff (next_addr s)
                        [''motion'' \<mapsto> PStr m, ''current_year'' \<mapsto> PStr (str_int (now_year e))]]
       \<and> (\<exists>n f. calls (snd (program e (Arguments Train opts) s)) =
             calls s @ [CallTrain n f (next_addr s)
                          [''motion'' \<mapsto> PStr m, ''current_year'' \<mapsto> PStr (str_int (now_year e))]])
       \<and> (\<exists>n l. calls (snd (program e (Arguments Test opts) s)) =
             calls s @ [CallTest n l (next_addr s)
                          [''motion'' \<mapsto> PStr m, ''current_year'' \<mapsto> PStr (str_int (now_year e))]])"
proof -
  have "prepared_inputs e (parse_args act opts) =
          [''motion'' \<mapsto> PStr m, ''current_year'' \<mapsto> PStr (str_int (now_year e))]" for act
    using assms(2,3) parse_args_motion [of act opts] by (simp add: prepared_inputs_motion)
  then show ?thesis
    using program_Run_calls [OF assms(1), of opts s] program_Train_calls [OF assms(1), of opts s]
      program_Test_calls [OF assms(1), of opts s]
    by simp
qed



theorem motion_flag_overrides_witness:
  "ns_motion (parse_args Run [Motion ''Remote work improves productivity'']) =
     Some ''Remote work improves productivity''
   \<and> calls (snd (program (env_with (crew_returning PNone))
              (Arguments Run [Motion ''Remote work improves productivity'']) initial_state)) =
       [CallKickoff 0 [''motion'' \<mapsto> PStr ''Remote work improves productivity'',
                       ''current_year'' \<mapsto> PStr ''2026'']]"
proof -
  have d: "Debate (env_with (crew_returning PNone)) = Inr (crew_returning PNone)"
    by (simp add: env_with_def)
  have p: "ns_motion (parse_args Run [Motion ''Remote work improves productivity'']) =
             Some ''Remote work improves productivity''"
    by (simp add: parse_args_def parser_defaults_def)
  have n: "''Remote work improves productivity'' \<noteq> []"
    by simp
  have y: "str_int (now_year (env_with (crew_returning PNone))) = ''2026''"
    by (simp add: env_with_def str_int_2026)
  show ?thesis
    using p motion_flag_overrides [OF d p n, of initial_state]
    by (simp add: initial_state_def y str_int_2026)
qed

text \<open>
  C5, as the code has it. Invoking the program with no argument first prints the
  line \<open>Running debate crew with default settings...\<close> and then does what the \<open>run\<close>
  action with no flag does: both hand the same input mapping to the delegated execute
  operation, namely the default motion and the string of the current year (this is
  also what the call \<open>run()\<close> hands over), and both leave the same objects behind.
  When the delegated operation returns normally, the rest of the output is the same
  and both processes exit with status 0.
\<close>

theorem zero_arguments_as_run_action:
  "calls (snd (program e NoArguments s)) = calls (snd (program e (Arguments Run []) s))
   \<and> heap (snd (program e NoArguments s)) = heap (snd (program e (Arguments Run []) s))
   \<and> calls (snd (program e NoArguments s)) = calls (snd (run e None s))
   \<and> (Debate e = Inr c \<longrightarrow>
        calls (snd (program e NoArguments s)) =
          calls s @ [CallKickoff (next_addr s)
            [''motion'' \<mapsto> PStr ''AI LLMs will significantly improve human productivity'',
             ''current_year'' \<mapsto> PStr (str_int (now_year e))]])
   \<and> (Debate e = Inr c \<longrightarrow> fst (crew_kickoff c (get_default_inputs e)) = Inr v \<longrightarrow>
        fst (program e NoArguments s) = Exit 0
        \<and> fst (program e (Arguments Run []) s) = Exit 0
        \<and> (\<exists>out. stdout (snd (program e (Arguments Run []) s)) = stdout s @ out
               \<and> stdout (snd (program e NoArguments s)) =
                   stdout s @ [''Running debate crew with default settings...''] @ out)
        \<and> stderr (snd (program e NoArguments s)) = stderr s
        \<and> stderr (snd (program e (Arguments Run []) s)) = stderr s)"
proof -
  have same: "Debate e = Inr c \<Longrightarrow>
        calls (snd (program e NoArguments s)) =
          calls s @ [CallKickoff (next_addr s)
            [''motion'' \<mapsto> PStr ''AI LLMs will significantly improve human productivity'',
             ''current_year'' \<mapsto> PStr (str_int (now_year e))]]"
    by (simp add: program_NoArguments_calls get_default_inputs_def default_motion_def)
  have normal: "fst (program e NoArguments s) = Exit 0
        \<and> fst (program e (Arguments Run []) s) = Exit 0
        \<and> (\<exists>out. stdout (snd (program e (Arguments Run []) s)) = stdout s @ out
               \<and> stdout (snd (program e NoArguments s)) =
                   stdout s @ [''Running debate crew with default settings...''] @ out)
        \<and> stderr (snd (program e NoArguments s)) = stderr s
        \<and> stderr (snd (program e (Arguments Run []) s)) = stderr s"
    if d: "Debate e = Inr c" and r: "fst (crew_kickoff c (get_default_inputs e)) = Inr v"
  proof -
    define out where "out =
      [''Starting debate on motion: '' @ py_str (the (get_default_inputs e ''motion'')),
       ''Current year: '' @ py_str (the (get_default_inputs e ''current_year'')),
       dashes, [CHR 0x0A] @ equals_signs, ''DEBATE COMPLETED'', equals_signs,
       ''Result: '' @ py_str v]"
    have 1: "fst (program e NoArguments s) = Exit 0"
      by (simp add: program_NoArguments_fst run_None run_Some [OF d] validated_default r)
    have 2: "fst (program e (Arguments Run []) s) = Exit 0"
      by (simp add: program_Arguments_fst main_Run try_main_fst run_Some [OF d]
            validated_default prepared_inputs_no_flags prepared_heap r)
    have 3: "stdout (snd (program e (Arguments Run []) s)) = stdout s @ out"
      by (simp add: program_Arguments_snd main_Run try_main_snd run_Some [OF d]
            validated_default prepared_inputs_no_flags prepared_heap r out_def)
    have 4: "stdout (snd (program e NoArguments s)) =
               stdout s @ [''Running debate crew with default settings...''] @ out"
      by (simp add: program_NoArguments_snd run_None run_Some [OF d] validated_default r out_def)
    have 5: "stderr (snd (program e NoArguments s)) = stderr s"
      by (simp add: program_NoArguments_snd run_None run_Some [OF d] validated_default r)
    have 6: "stderr (snd (program e (Arguments Run []) s)) = stderr s"
      by (simp add: program_Arguments_snd main_Run try_main_snd)
    from 3 4 have "\<exists>out. stdout (snd (program e (Arguments Run []) s)) = stdout s @ out
               \<and> stdout (snd (program e NoArguments s)) =
                   stdout s @ [''Running debate crew with default settings...''] @ out"
      by blast
    with 1 2 5 6 show ?thesis by blast
  qed
  have first: "calls (snd (program e NoArguments s)) = calls (snd (program e (Arguments Run []) s))
   \<and> heap (snd (program e NoArguments s)) = heap (snd (program e (Arguments Run []) s))
   \<and> calls (snd (program e NoArguments s)) = calls (snd (run e None s))"
    by (simp add: program_Run_calls_eq program_Run_heap program_NoArguments_snd
          run_None_calls_banner)
  from first same normal show ?thesis by blast
qed

theorem zero_arguments_as_run_action_witness:
  "Debate (env_with (crew_returning PNone)) = Inr (crew_returning PNone)
   \<and> fst (crew_kickoff (crew_returning PNone) (get_default_inputs (env_with (crew_returning PNone))))
       = Inr PNone
   \<and> calls (snd (program (env_with (crew_returning PNone)) (Arguments Run []) initial_state)) =
       [CallKickoff 0
          [''motion'' \<mapsto> PStr ''AI LLMs will significantly improve human productivity'',
           ''current_year'' \<mapsto> PStr ''2026'']]
   \<and> fst (program (env_with (crew_returning PNone)) NoArguments initial_state) = Exit 0"
proof -
  have d: "Debate (env_with (crew_returning PNone)) = Inr (crew_returning PNone)"
    by (simp add: env_with_def)
  have r: "fst (crew_kickoff (crew_returning PNone)
             (get_default_inputs (env_with (crew_returning PNone)))) = Inr PNone"
    by simp
  have y: "str_int (now_year (env_with (crew_returning PNone))) = ''2026''"
    by (simp add: env_with_def str_int_2026)
  show ?thesis
    using d r zero_arguments_as_run_action
      [of "env_with (crew_returning PNone)" initial_state "crew_returning PNone" PNone]
    by (auto simp add: initial_state_def y str_int_2026)
qed

text \<open>
  C5, as stated, fails: the two invocations do not behave exactly alike. When the
  delegated operation returns, the invocation without arguments has printed one line
  more; when it raises \<open>Exception("boom")\<close>, the \<open>run\<close> action prints the
  \<open>Fatal error\<close> line of \<open>main\<close> and the invocation without arguments does not.
\<close>

theorem zero_arguments_output_differs:
  "stdout (snd (program (env_with (crew_returning (PStr ''done''))) NoArguments initial_state))
     = [''Running debate crew with default settings...'',
        ''Starting debate on motion: AI LLMs will significantly improve human productivity'',
        ''Current year: 2026'', dashes, [CHR 0x0A] @ equals_signs, ''DEBATE COMPLETED'',
        equals_signs, ''Result: done'']
   \<and> stdout (snd (program (env_with (crew_returning (PStr ''done''))) (Arguments Run []) initial_state))
     = [''Starting debate on motion: AI LLMs will significantly improve human productivity'',
        ''Current year: 2026'', dashes, [CHR 0x0A] @ equals_signs, ''DEBATE COMPLETED'',
        equals_signs, ''Result: done'']
   \<and> stdout (snd (program (env_with (crew_raising (Exception ''boom''))) NoArguments initial_state))
     = [''Running debate crew with default settings...'',
        ''Starting debate on motion: AI LLMs will significantly improve human productivity'',
        ''Current year: 2026'', dashes,
        cross_mark @ '' Error occurred while running the crew: boom'']
   \<and> stdout (snd (program (env_with (crew_raising (Exception ''boom''))) (Arguments Run []) initial_state))
     = [''Starting debate on motion: AI LLMs will significantly improve human productivity'',
        ''Current year: 2026'', dashes,
        cross_mark @ '' Error occurred while running the crew: boom'',
        cross_mark @ '' Fatal error: boom'']
   \<and> program (env_with (crew_returning (PStr ''done''))) NoArguments initial_state
       \<noteq> program (env_with (crew_returning (PStr ''done''))) (Arguments Run []) initial_state"
proof -
  let ?ok = "env_with (crew_returning (PStr ''done''))"
  let ?bad = "env_with (crew_raising (Exception ''boom''))"
  have 1: "stdout (snd (program ?ok NoArguments initial_state))
     = [''Running debate crew with default settings...'',
        ''Starting debate on motion: AI LLMs will significantly improve human productivity'',
        ''Current year: 2026'', dashes, [CHR 0x0A] @ equals_signs, ''DEBATE COMPLETED'',
        equals_signs, ''Result: done'']"
    by (simp add: program_NoArguments_snd run_None
          run_Some [where c = "crew_returning (PStr ''done'')"] validated_default default_lines
          str_int_2026 initial_state_def default_motion_def)
  have 2: "stdout (snd (program ?ok (Arguments Run []) initial_state))
     = [''Starting debate on motion: AI LLMs will significantly improve human productivity'',
        ''Current year: 2026'', dashes, [CHR 0x0A] @ equals_signs, ''DEBATE COMPLETED'',
        equals_signs, ''Result: done'']"
    by (simp add: program_Arguments_snd main_Run try_main_snd
          run_Some [where c = "crew_returning (PStr ''done'')"] validated_default
          prepared_inputs_no_flags prepared_heap default_lines str_int_2026 initial_state_def
          default_motion_def)
  have 3: "stdout (snd (program ?bad NoArguments initial_state))
     = [''Running debate crew with default settings...'',
        ''Starting debate on motion: AI LLMs will significantly improve human productivity'',
        ''Current year: 2026'', dashes,
        cross_mark @ '' Error occurred while running the crew: boom'']"
    by (simp add: program_NoArguments_snd run_None
          run_Some [where c = "crew_raising (Exception ''boom'')"] validated_default default_lines
          str_int_2026 handler_lines_def initial_state_def default_motion_def)
  have 4: "stdout (snd (program ?bad (Arguments Run []) initial_state))
     = [''Starting debate on motion: AI LLMs will significantly improve human productivity'',
        ''Current year: 2026'', dashes,
        cross_mark @ '' Error occurred while running the crew: boom'',
        cross_mark @ '' Fatal error: boom'']"
    by (simp add: program_Arguments_snd main_Run try_main_snd
          run_Some [where c = "crew_raising (Exception ''boom'')"] validated_default
          prepared_inputs_no_flags prepared_heap default_lines str_int_2026 handler_lines_def
          main_lines_def initial_state_def default_motion_def)
  have "length (stdout (snd (program ?ok NoArguments initial_state)))
          \<noteq> length (stdout (snd (program ?ok (Arguments Run []) initial_state)))"
    unfolding 1 2 by simp
  then have 5: "program ?ok NoArguments initial_state \<noteq> program ?ok (Arguments Run []) initial_state"
    by auto
  from 1 2 3 4 5 show ?thesis by blast
qed

subsection \<open>Failures\<close>

text \<open>
  C4, as the code has it. When a delegated operation (kickoff, train, replay or test)
  raises an \<open>Exception\<close> with text \<open>t\<close>, the dispatcher prints the prefixed message
  ending in \<open>t\<close> on standard output, not on standard error, and re-raises the
  exception: the function that made the call ends with that exception. The process
  then terminates with exit status 1, after the prefixed message; the only lines that
  can follow it on standard output are the \<open>Fatal error\<close> line, which also ends in \<open>t\<close>.
  The dispatcher itself writes nothing to standard error, which receives at most the
  interpreter's traceback.
\<close>

theorem delegated_exception_reported:
  assumes "Debate e = Inr c"
    and "calls (snd (program e cl s)) = calls s @ [k]"
    and "outcome_of c k = Inl (Exception t)"
  shows "fst (program e cl s) = Exit 1
       \<and> (\<exists>pre post. stdout (snd (program e cl s)) =
             stdout s @ pre
               @ [cross_mark @ '' Error occurred while '' @ activity k @ '' the crew: '' @ t]
               @ post
             \<and> (post = [] \<or> post = [cross_mark @ '' Fatal error: '' @ t]))
       \<and> (stderr (snd (program e cl s)) = stderr s
            \<or> stderr (snd (program e cl s)) = stderr s @ traceback e (Exception t))
       \<and> (outcome_of c (last (calls (snd (run e inputs s0)))) = Inl (Exception t)
            \<longrightarrow> fst (run e inputs s0) = Inl (Exception t)
                \<and> stderr (snd (run e inputs s0)) = stderr s0)
       \<and> (outcome_of c (last (calls (snd (train e n f inputs s0)))) = Inl (Exception t)
            \<longrightarrow> fst (train e n f inputs s0) = Inl (Exception t)
                \<and> stderr (snd (train e n f inputs s0)) = stderr s0)
       \<and> (outcome_of c (last (calls (snd (replay e tid s0)))) = Inl (Exception t)
            \<longrightarrow> fst (replay e tid s0) = Inl (Exception t)
                \<and> stderr (snd (replay e tid s0)) = stderr s0)
       \<and> (outcome_of c (last (calls (snd (test e n l inputs s0)))) = Inl (Exception t)
            \<longrightarrow> fst (test e n l inputs s0) = Inl (Exception t)
                \<and> stderr (snd (test e n l inputs s0)) = stderr s0)"
proof -
  have top: "fst (program e cl s) = Exit 1
       \<and> (\<exists>pre post. stdout (snd (program e cl s)) =
             stdout s @ pre
               @ [cross_mark @ '' Error occurred while '' @ activity k @ '' the crew: '' @ t]
               @ post
             \<and> (post = [] \<or> post = [cross_mark @ '' Fatal error: '' @ t]))
       \<and> (stderr (snd (program e cl s)) = stderr s
            \<or> stderr (snd (program e cl s)) = stderr s @ traceback e (Exception t))"
  proof (cases cl)
    case NoArguments
    from delegated_raise [OF assms] obtain pre where
      "fst (program e cl s) = Exit 1"
      "stdout (snd (program e cl s)) =
         stdout s @ pre
           @ [cross_mark @ '' Error occurred while '' @ activity k @ '' the crew: '' @ t] @ []"
      "stderr (snd (program e cl s)) = stderr s @ traceback e (Exception t)"
      by (auto simp add: NoArguments handler_lines_def main_lines_def)
    then show ?thesis by blast
  next
    case (Arguments act opts)
    from delegated_raise [OF assms] obtain pre where
      "fst (program e cl s) = Exit 1"
      "stdout (snd (program e cl s)) =
         stdout s @ pre
           @ [cross_mark @ '' Error occurred while '' @ activity k @ '' the crew: '' @ t]
           @ [cross_mark @ '' Fatal error: '' @ t]"
      "stderr (snd (program e cl s)) = stderr s"
      by (auto simp add: Arguments handler_lines_def main_lines_def)
    then show ?thesis by blast
  qed
  have r1: "outcome_of c (last (calls (snd (run e inputs s0)))) = Inl (Exception t)
            \<longrightarrow> fst (run e inputs s0) = Inl (Exception t)
                \<and> stderr (snd (run e inputs s0)) = stderr s0"
    by (simp add: run_calls [OF assms(1)] run_fst [OF assms(1)])
  have r2: "outcome_of c (last (calls (snd (train e n f inputs s0)))) = Inl (Exception t)
            \<longrightarrow> fst (train e n f inputs s0) = Inl (Exception t)
                \<and> stderr (snd (train e n f inputs s0)) = stderr s0"
    by (simp add: train_calls [OF assms(1)] train_fst [OF assms(1)] stderr_train [OF assms(1)])
  have r3: "outcome_of c (last (calls (snd (replay e tid s0)))) = Inl (Exception t)
            \<longrightarrow> fst (replay e tid s0) = Inl (Exception t)
                \<and> stderr (snd (replay e tid s0)) = stderr s0"
    by (simp add: replay_eq [OF assms(1)])
  have r4: "outcome_of c (last (calls (snd (test e n l inputs s0)))) = Inl (Exception t)
            \<longrightarrow> fst (test e n l inputs s0) = Inl (Exception t)
                \<and> stderr (snd (test e n l inputs s0)) = stderr s0"
    by (simp add: test_calls [OF assms(1)] test_fst [OF assms(1)] stderr_test [OF assms(1)])
  from top r1 r2 r3 r4 show ?thesis by blast
qed

theorem delegated_exception_reported_witness:
  "calls (snd (program (env_with (crew_raising (Exception ''boom''))) NoArguments initial_state))
     = calls initial_state @
         [CallKickoff 0 (get_default_inputs (env_with (crew_raising (Exception ''boom''))))]
   \<and> outcome_of (crew_raising (Exception ''boom''))
        (CallKickoff 0 (get_default_inputs (env_with (crew_raising (Exception ''boom'')))))
       = Inl (Exception ''boom'')
   \<and> fst (program (env_with (crew_raising (Exception ''boom''))) NoArguments initial_state) = Exit 1
   \<and> fst (run (env_with (crew_raising (Exception ''boom''))) None initial_state)
       = Inl (Exception ''boom'')"
proof -
  let ?e = "env_with (crew_raising (Exception ''boom''))"
  let ?k = "CallKickoff 0 (get_default_inputs ?e)"
  have d: "Debate ?e = Inr (crew_raising (Exception ''boom''))"
    by simp
  have c: "calls (snd (program ?e NoArguments initial_state)) = calls initial_state @ [?k]"
    by (simp add: program_NoArguments_calls [OF d]) (simp add: initial_state_def)
  have r: "outcome_of (crew_raising (Exception ''boom'')) ?k = Inl (Exception ''boom'')"
    by simp
  have l: "outcome_of (crew_raising (Exception ''boom''))
             (last (calls (snd (run ?e None initial_state)))) = Inl (Exception ''boom'')"
    by (simp add: run_calls [OF d])
  show ?thesis
    using c r l delegated_exception_reported [OF d c r, of None initial_state]
    by simp
qed

text \<open>
  C4, as stated, fails: for \<open>run\<close> with a framework whose kickoff raises
  \<open>Exception("boom")\<close>, both messages are on standard output and standard error
  stays empty; and when kickoff raises \<open>KeyboardInterrupt\<close>, which is not an
  \<open>Exception\<close>, no prefixed message is printed at all.
\<close>

theorem exception_message_not_on_stderr:
  "stderr (snd (program (env_with (crew_raising (Exception ''boom''))) (Arguments Run []) initial_state))
     = []
   \<and> stdout (snd (program (env_with (crew_raising (Exception ''boom''))) (Arguments Run []) initial_state))
     = [''Starting debate on motion: AI LLMs will significantly improve human productivity'',
        ''Current year: 2026'', dashes,
        cross_mark @ '' Error occurred while running the crew: boom'',
        cross_mark @ '' Fatal error: boom'']
   \<and> stdout (snd (program (env_with (crew_raising KeyboardInterrupt)) (Arguments Run []) initial_state))
     = [''Starting debate on motion: AI LLMs will significantly improve human productivity'',
        ''Current year: 2026'', dashes,
        [CHR 0x0A] @ warning_sign @ ''  Operation cancelled by user'']"
  by (simp add: program_Arguments_snd main_Run try_main_snd
        run_Some [where c = "crew_raising (Exception ''boom'')"]
        run_Some [where c = "crew_raising KeyboardInterrupt"] validated_default
        prepared_inputs_no_flags prepared_heap default_lines str_int_2026 handler_lines_def
        main_lines_def initial_state_def default_motion_def)

text \<open>
  C8. With no argument, the program calls \<open>run()\<close> outside the \<open>try\<close> block of
  \<open>main\<close>: a \<open>KeyboardInterrupt\<close> raised by the delegated call is not caught, no
  cancellation message is printed and the process does not exit through
  \<open>sys.exit(1)\<close>. The same interrupt under the \<open>run\<close> action is caught, reported and
  turned into exit status 1.
\<close>

theorem zero_arguments_interrupt_not_caught:
  "fst (program (env_with (crew_raising KeyboardInterrupt)) NoArguments initial_state)
     = Uncaught KeyboardInterrupt
   \<and> stdout (snd (program (env_with (crew_raising KeyboardInterrupt)) NoArguments initial_state))
     = [''Running debate crew with default settings...'',
        ''Starting debate on motion: AI LLMs will significantly improve human productivity'',
        ''Current year: 2026'', dashes]
   \<and> fst (program (env_with (crew_raising KeyboardInterrupt)) (Arguments Run []) initial_state)
     = Exit 1
   \<and> stdout (snd (program (env_with (crew_raising KeyboardInterrupt)) (Arguments Run []) initial_state))
     = [''Starting debate on motion: AI LLMs will significantly improve human productivity'',
        ''Current year: 2026'', dashes,
        [CHR 0x0A] @ warning_sign @ ''  Operation cancelled by user'']"
  by (simp add: program_NoArguments_fst program_NoArguments_snd program_Arguments_fst
        program_Arguments_snd main_Run try_main_fst try_main_snd run_None
        run_Some [where c = "crew_raising KeyboardInterrupt"] validated_default validated_prepared
        prepared_inputs_no_flags prepared_heap default_lines str_int_2026 handler_lines_def
        main_lines_def initial_state_def default_motion_def)

subsection \<open>The caller's mapping\<close>

text \<open>
  C9, as the code has it. The mapping is passed by reference: \<open>validate_inputs\<close>
  assigns the defaults into the caller's own object, and that object is what the
  delegated call receives. After \<open>run\<close>, \<open>train\<close> or \<open>test\<close> with a caller-supplied
  mapping, the caller's object holds the validated content as the delegated call
  left it, and no other object has changed. Validation leaves the mapping as it was
  only when \<open>motion\<close> and \<open>current_year\<close> were both truthy already; a missing or
  empty value is replaced in place.
\<close>

theorem caller_mapping_filled_in_place:
  assumes "Debate e = Inr c"
  shows "heap (snd (run e (Some a) s)) =
           (heap s)(a := snd (crew_kickoff c (heap (snd (validate_inputs e a s)) a)))
       \<and> heap (snd (train e n f (Some a) s)) =
           (heap s)(a := snd (crew_train c (case n of None \<Rightarrow> 5 | Some k \<Rightarrow> k)
                               (case f of None \<Rightarrow> ''training_results.json'' | Some g \<Rightarrow> g)
                               (heap (snd (validate_inputs e a s)) a)))
       \<and> heap (snd (test e n l (Some a) s)) =
           (heap s)(a := snd (crew_test c (case n of None \<Rightarrow> 3 | Some k \<Rightarrow> k)
                               (case l of None \<Rightarrow> ''openai/gpt-4o-mini'' | Some g \<Rightarrow> g)
                               (heap (snd (validate_inputs e a s)) a)))
       \<and> calls (snd (run e (Some a) s)) =
           calls s @ [CallKickoff a (heap (snd (validate_inputs e a s)) a)]
       \<and> (truthy (dict_get (heap s a) ''motion'') \<and> truthy (dict_get (heap s a) ''current_year'')
            \<longrightarrow> validate_inputs e a s = (Inr a, s))
       \<and> (\<not> truthy (dict_get (heap s a) ''motion'')
            \<longrightarrow> heap (snd (validate_inputs e a s)) a ''motion''
                  = Some (PStr ''AI LLMs will significantly improve human productivity''))
       \<and> (\<not> truthy (dict_get (heap s a) ''current_year'')
            \<longrightarrow> heap (snd (validate_inputs e a s)) a ''current_year''
                  = Some (PStr (str_int (now_year e))))"
proof -
  have "calls (snd (run e (Some a) s)) =
           calls s @ [CallKickoff a (heap (snd (validate_inputs e a s)) a)]"
    using assms by (simp add: run_Some validate_inputs_eq)
  moreover have "\<not> truthy (dict_get (heap s a) ''motion'')
            \<longrightarrow> heap (snd (validate_inputs e a s)) a ''motion''
                  = Some (PStr ''AI LLMs will significantly improve human productivity'')"
    using validate_inputs_fills_motion [of s a e] by (simp add: default_motion_def)
  ultimately show ?thesis
    using heap_run_Some [OF assms] heap_train_Some [OF assms] heap_test_Some [OF assms]
      validate_inputs_fixed [of s a e] validate_inputs_fills_year [of s a e]
    by blast
qed

theorem caller_mapping_filled_in_place_witness:
  "\<not> truthy (dict_get (heap caller_state 0) ''motion'')
   \<and> \<not> truthy (dict_get (heap caller_state 0) ''current_year'')
   \<and> heap (snd (run (env_with (crew_returning PNone)) (Some 0) caller_state)) 0 =
        [''audience'' \<mapsto> PStr ''students'',
         ''motion'' \<mapsto> PStr ''AI LLMs will significantly improve human productivity'',
         ''current_year'' \<mapsto> PStr ''2026'']"
proof -
  let ?e = "env_with (crew_returning PNone)"
  have d: "Debate ?e = Inr (crew_returning PNone)"
    by simp
  have m: "\<not> truthy (dict_get (heap caller_state 0) ''motion'')"
    by (simp add: caller_state_def dict_get_def)
  have y: "\<not> truthy (dict_get (heap caller_state 0) ''current_year'')"
    by (simp add: caller_state_def dict_get_def)
  have v: "heap (snd (validate_inputs ?e 0 caller_state)) 0 =
        [''audience'' \<mapsto> PStr ''students'',
         ''motion'' \<mapsto> PStr ''AI LLMs will significantly improve human productivity'',
         ''current_year'' \<mapsto> PStr ''2026'']"
    by (simp add: validate_inputs_eq validated_def caller_state_def dict_get_def str_int_2026
          default_motion_def)
  show ?thesis
    using m y caller_mapping_filled_in_place [OF d, of 0 caller_state] by (simp add: v)
qed

text \<open>
  C9, as stated, fails: a caller's mapping without \<open>motion\<close> has the default motion
  after \<open>run\<close>, although the delegated call changed nothing.
\<close>

theorem caller_mapping_is_mutated:
  "heap (snd (run (env_with (crew_returning PNone)) (Some 0) caller_state)) 0 ''motion''
     = Some (PStr ''AI LLMs will significantly improve human productivity'')
   \<and> heap caller_state 0 ''motion'' = None
   \<and> heap (snd (run (env_with (crew_returning PNone)) (Some 0) caller_state)) 0
       \<noteq> heap caller_state 0"
proof -
  let ?after = "heap (snd (run (env_with (crew_returning PNone)) (Some 0) caller_state)) 0"
  have a: "?after ''motion'' = Some (PStr ''AI LLMs will significantly improve human productivity'')"
    by (simp add: run_Some [where c = "crew_returning PNone"] validated_motion caller_state_def
          dict_get_def default_motion_def)
  have b: "heap caller_state 0 ''motion'' = None"
    by (simp add: caller_state_def)
  from a b have "?after \<noteq> heap caller_state 0"
    by (metis option.distinct(1))
  with a b show ?thesis by simp
qed

end
